theory Spec2Isabelle
  imports Main
begin

section \<open>Data model of client.go\<close>

text \<open>
  The Go file \<open>client.go\<close> defines the client entry points \<open>Pull\<close>, \<open>Push\<close>,
  \<open>Import\<close> and \<open>Export\<close>. They orchestrate collaborators that live in other
  packages (resolver, dispatcher, handlers, image store, unpacker). The collaborators are
  parameters of the model (the record \<open>deps\<close>); the orchestration is translated from
  the Go text.
\<close>

subsection \<open>Descriptors, media types, errors, image records\<close>

text \<open>\<open>ocispec.Descriptor\<close>: the fields that client.go reads.\<close>

record descriptor =
  MediaType :: string
  Digest :: string
  Size :: int

text \<open>
  Modelled from the spec: the media type constants of the packages \<open>images\<close> and
  \<open>ocispec\<close>, which client.go names but does not define. The spec calls them the
  Docker schema 1 manifest, the Docker schema 2 manifest, the OCI image manifest, the
  Docker manifest list and the OCI image index; they are five distinct string tags.
\<close>

definition MediaTypeDockerSchema1Manifest :: string where
  "MediaTypeDockerSchema1Manifest = ''application/vnd.docker.distribution.manifest.v1+prettyjws''"

definition MediaTypeDockerSchema2Manifest :: string where
  "MediaTypeDockerSchema2Manifest = ''application/vnd.docker.distribution.manifest.v2+json''"

definition MediaTypeDockerSchema2ManifestList :: string where
  "MediaTypeDockerSchema2ManifestList = ''application/vnd.docker.distribution.manifest.list.v2+json''"

definition MediaTypeImageManifest :: string where
  "MediaTypeImageManifest = ''application/vnd.oci.image.manifest.v1+json''"

definition MediaTypeImageIndex :: string where
  "MediaTypeImageIndex = ''application/vnd.oci.image.index.v1+json''"

text \<open>
  Go \<open>error\<close> values, by the kinds that client.go tells apart: the sentinel
  \<open>images.StopHandler\<close>, errors for which \<open>errdefs.IsNotFound\<close> holds, the
  unsupported-format kind of the spec, and every other error (\<open>errors.New\<close>,
  \<open>errors.Errorf\<close>, collaborator failures), identified by its message.
\<close>

datatype error =
    StopHandler
  | ErrNotFound string
  | ErrUnsupportedFormat string
  | Errorf string

text \<open>
  Modelled from the spec: \<open>errdefs.IsNotFound\<close>, which is not in client.go. It holds
  exactly of the NotFound-kind errors.
\<close>

fun IsNotFound :: "error \<Rightarrow> bool" where
  "IsNotFound (ErrNotFound m) = True"
| "IsNotFound e = False"

text \<open>\<open>images.Image\<close>: the image record, a name and a target descriptor.\<close>

record Image =
  Name :: string
  Target :: descriptor

subsection \<open>State: the outside world, the calls made, the manifest stack\<close>

text \<open>
  Every call on a collaborator, by client.go or by a handler that it installs, is
  appended to \<open>calls\<close>, oldest first, and then run on the outside world
  \<open>world\<close> (content store, remote registry, image metadata registry, snapshotters),
  whose type is left open. A call is made and returns before the next one is made.
\<close>

type_synonym fetcher = nat
type_synonym pusher = nat

text \<open>
  \<open>importOpts\<close> and \<open>exportOpts\<close>; \<open>imageFormat\<close> is a string type, and
  \<open>exportFormat\<close> is the field \<open>exportOpts.format\<close>.
\<close>

record importOpts =
  format :: string
  refObject :: string

record exportOpts =
  exportFormat :: string

definition ociImageFormat :: string where
  "ociImageFormat = ''oci''"

datatype call =
    CallResolve string
  | CallFetcher string
  | CallPusher string
  | CallDispatch descriptor
  | CallFetch fetcher descriptor
  | CallChildren descriptor
  | CallConverter fetcher descriptor
  | CallConvert fetcher
  | CallUpdate Image "string list"
  | CallCreate Image
  | CallUnpack Image string
  | CallPush pusher descriptor
  | CallImportFromOCITar string string importOpts

text \<open>
  \<open>manifestStack\<close> is the local slice of \<open>Push\<close> that the closure
  \<open>filterHandler\<close> captures; \<open>Pull\<close> never reads or writes it. The mutex around
  the append is not modelled: handler invocations are sequential here.
\<close>

record 'w state =
  world :: 'w
  calls :: "call list"
  manifestStack :: "descriptor list"

text \<open>A collaborator acts on the world; \<open>run\<close> lifts it to the state, \<open>call\<close> records it first.\<close>

definition run :: "('w \<Rightarrow> 'a \<times> 'w) \<Rightarrow> 'w state \<Rightarrow> 'a \<times> 'w state" where
  "run f s = (case f (world s) of (r, w') \<Rightarrow> (r, s\<lparr>world := w'\<rparr>))"

definition call :: "call \<Rightarrow> ('w \<Rightarrow> 'a \<times> 'w) \<Rightarrow> 'w state \<Rightarrow> 'a \<times> 'w state" where
  "call ev f s = run f (s\<lparr>calls := calls s @ [ev]\<rparr>)"

subsection \<open>Handlers\<close>

text \<open>
  \<open>images.Handler\<close>: given a descriptor, returns the children and an error
  (\<open>None\<close> is Go's \<open>nil\<close> error; a \<open>nil\<close> slice is \<open>[]\<close>).
\<close>

type_synonym 's handler = "descriptor \<Rightarrow> 's \<Rightarrow> (descriptor list \<times> error option) \<times> 's"

subsection \<open>Resolver, RemoteContext, RemoteOpts\<close>

text \<open>\<open>remotes.Resolver\<close>: the three methods that client.go calls.\<close>

record 'w Resolver =
  Resolve :: "string \<Rightarrow> 'w \<Rightarrow> (error + string \<times> descriptor) \<times> 'w"
  Fetcher :: "string \<Rightarrow> 'w \<Rightarrow> (error + fetcher) \<times> 'w"
  Pusher :: "string \<Rightarrow> 'w \<Rightarrow> (error + pusher) \<times> 'w"

record 'w RemoteContext =
  Resolver :: "'w Resolver"
  Unpack :: bool
  Snapshotter :: string
  BaseHandlers :: "'w handler list"
  ConvertSchema1 :: bool

text \<open>
  \<open>RemoteOpts\<close>: \<open>func(*Client, *RemoteContext) error\<close>. An option may change the
  context and, through the client, the world.
\<close>

type_synonym 'w RemoteOpts =
  "'w RemoteContext \<Rightarrow> 'w \<Rightarrow> (error option \<times> 'w RemoteContext) \<times> 'w"

definition WithPullUnpack :: "'w RemoteOpts" where
  "WithPullUnpack c w = ((None, c\<lparr>Unpack := True\<rparr>), w)"

definition WithPullSnapshotter :: "string \<Rightarrow> 'w RemoteOpts" where
  "WithPullSnapshotter snapshotterName c w = ((None, c\<lparr>Snapshotter := snapshotterName\<rparr>), w)"

definition WithSchema1Conversion :: "'w RemoteOpts" where
  "WithSchema1Conversion c w = ((None, c\<lparr>ConvertSchema1 := True\<rparr>), w)"

definition WithResolver :: "'w Resolver \<Rightarrow> 'w RemoteOpts" where
  "WithResolver resolver c w = ((None, c\<lparr>Resolver := resolver\<rparr>), w)"

definition WithImageHandler :: "'w handler \<Rightarrow> 'w RemoteOpts" where
  "WithImageHandler h c w = ((None, c\<lparr>BaseHandlers := BaseHandlers c @ [h]\<rparr>), w)"

text \<open>
  The loop \<open>for _, o := range opts\<close> of \<open>Pull\<close> and \<open>Push\<close>: the first option
  that returns an error ends it.
\<close>

fun applyOpts :: "'w RemoteOpts list \<Rightarrow> 'w RemoteContext \<Rightarrow> 'w \<Rightarrow> (error + 'w RemoteContext) \<times> 'w" where
  "applyOpts [] c w = (Inr c, w)"
| "applyOpts (opt # opts) c w =
     (case opt c w of
        ((Some err, c'), w') \<Rightarrow> (Inl err, w')
      | ((None, c'), w') \<Rightarrow> applyOpts opts c' w')"

subsection \<open>The collaborators that client.go calls and does not define\<close>

record 'w deps =
  dockerResolver :: "'w Resolver"
  dispatch :: "'w state handler list \<Rightarrow> descriptor \<Rightarrow> 'w state \<Rightarrow> (error option \<times> 'w state) option"
  fetch :: "fetcher \<Rightarrow> descriptor \<Rightarrow> 'w \<Rightarrow> error option \<times> 'w"
  children :: "'w handler"
  converterHandle :: "fetcher \<Rightarrow> 'w handler"
  converterConvert :: "fetcher \<Rightarrow> 'w \<Rightarrow> (error + descriptor) \<times> 'w"
  pushBlob :: "pusher \<Rightarrow> 'w handler"
  isUpdate :: "Image \<Rightarrow> string list \<Rightarrow> 'w \<Rightarrow> (error + Image) \<times> 'w"
  isCreate :: "Image \<Rightarrow> 'w \<Rightarrow> (error + Image) \<times> 'w"
  imageUnpack :: "Image \<Rightarrow> string \<Rightarrow> 'w \<Rightarrow> error option \<times> 'w"
  referenceParse :: "string \<Rightarrow> error + string"
  importFromOCITar :: "string \<Rightarrow> string \<Rightarrow> importOpts \<Rightarrow> 'w \<Rightarrow> (error + Image) \<times> 'w"

text \<open>
  \<open>dockerResolver\<close> is \<open>docker.NewResolver(...)\<close>; \<open>fetch\<close> copies a blob from
  a fetcher into the content store; \<open>children\<close> is \<open>images.ChildrenHandler(store)\<close>;
  \<open>converterHandle\<close> and \<open>converterConvert\<close> are the methods of the
  \<open>schema1.Converter\<close> made by \<open>schema1.NewConverter(store, fetcher)\<close>;
  \<open>pushBlob\<close> is \<open>remotes.PushHandler(cs, pusher)\<close>; \<open>isUpdate\<close> and
  \<open>isCreate\<close> are the methods of \<open>c.ImageService()\<close>; \<open>imageUnpack\<close> is
  \<open>(*image).Unpack\<close>; \<open>referenceParse\<close> is \<open>reference.Parse\<close> followed by
  the read of \<open>refSpec.Object\<close>; \<open>importFromOCITar\<close> is the method of that name
  (the reader is the string of its bytes).
  \<open>dispatch hs desc\<close> is \<open>images.Dispatch(ctx, images.Handlers(hs...), desc)\<close>.
  It may not return (a content graph need not be finite), which is \<open>None\<close>. It is
  given the state, since the handlers of \<open>Push\<close> write the manifest stack.
\<close>

definition defaultRemoteContext :: "'w deps \<Rightarrow> 'w RemoteContext" where
  "defaultRemoteContext c =
     \<lparr>Resolver = dockerResolver c, Unpack = False, Snapshotter = '''',
      BaseHandlers = [], ConvertSchema1 = False\<rparr>"

section \<open>The handlers that client.go installs\<close>

text \<open>
  A caller-supplied base handler acts on the world only. The children handler, the
  schema 1 converter and the upload handler are the collaborators of those names, recorded
  in \<open>calls\<close>.
\<close>

definition liftH :: "'w handler \<Rightarrow> 'w state handler" where
  "liftH h desc s = run (h desc) s"

definition ChildrenHandler :: "'w deps \<Rightarrow> 'w state handler" where
  "ChildrenHandler c desc s = call (CallChildren desc) (children c desc) s"

definition schema1Converter :: "'w deps \<Rightarrow> fetcher \<Rightarrow> 'w state handler" where
  "schema1Converter c f desc s = call (CallConverter f desc) (converterHandle c f desc) s"

definition pushHandler :: "'w deps \<Rightarrow> pusher \<Rightarrow> 'w state handler" where
  "pushHandler c p desc s = call (CallPush p desc) (pushBlob c p desc) s"

text \<open>
  Modelled from the spec: \<open>remotes.FetchHandler(store, fetcher)\<close>, which is not in
  client.go. It is the spec's fetch-into-content-store handler. The spec has the pull of a
  schema 1 manifest without conversion fail with UnsupportedFormat and without a
  content-store write; \<open>Pull\<close> has no check of its own and installs this handler in
  that case, so the check is the handler's. Every other descriptor is fetched into the
  store (the call \<open>CallFetch\<close>).
\<close>

definition FetchHandler :: "'w deps \<Rightarrow> fetcher \<Rightarrow> 'w state handler" where
  "FetchHandler c f desc s =
     (if MediaType desc = MediaTypeDockerSchema1Manifest
      then (([], Some (ErrUnsupportedFormat (MediaType desc))), s)
      else (case call (CallFetch f desc) (fetch c f desc) s of
              (err, s') \<Rightarrow> (([], err), s')))"

text \<open>
  Modelled from the spec: \<open>images.Handlers\<close>, the handler chain (spec 4.1), which is
  not in client.go. The members run in order on the same descriptor and their children
  are concatenated; a member that returns StopDescent or a hard error ends the chain,
  which returns that error.
\<close>

fun Handlers :: "'s handler list \<Rightarrow> 's handler" where
  "Handlers [] desc s = (([], None), s)"
| "Handlers (h # hs) desc s =
     (case h desc s of
        ((ch, Some err), s') \<Rightarrow> (([], Some err), s')
      | ((ch, None), s') \<Rightarrow>
          (case Handlers hs desc s' of
             ((ch', Some err), s'') \<Rightarrow> (([], Some err), s'')
           | ((ch', None), s'') \<Rightarrow> ((ch @ ch', None), s'')))"

text \<open>
  Modelled from the spec: \<open>images.Dispatch\<close>, the dispatcher (spec 4.2), which is not
  in client.go, in one sequential schedule: the handler runs on a descriptor, then on its
  children, then on the next sibling; StopDescent skips the children; the first hard error
  ends the dispatch. The first argument is fuel: every recursive call, on the children or
  on the rest of the list, is given one less, and \<open>None\<close> says that it ran out.
\<close>

fun Dispatch :: "nat \<Rightarrow> 's handler \<Rightarrow> descriptor list \<Rightarrow> 's \<Rightarrow> (error option \<times> 's) option" where
  "Dispatch n h [] s = Some (None, s)"
| "Dispatch 0 h (desc # descs) s = None"
| "Dispatch (Suc n) h (desc # descs) s =
     (case h desc s of
        ((ch, Some err), s') \<Rightarrow>
          (if err = StopHandler then Dispatch n h descs s' else Some (Some err, s'))
      | ((ch, None), s') \<Rightarrow>
          (case Dispatch n h ch s' of
             None \<Rightarrow> None
           | Some (Some err, s'') \<Rightarrow> Some (Some err, s'')
           | Some (None, s'') \<Rightarrow> Dispatch n h descs s''))"

section \<open>Push\<close>

text \<open>
  The closure \<open>filterHandler\<close> of \<open>Push\<close> (lines 447-458): a switch on the media
  type with one case of four constants and a default.
\<close>

definition filterHandler :: "'w state handler" where
  "filterHandler desc s =
     (if MediaType desc = MediaTypeDockerSchema2Manifest
         \<or> MediaType desc = MediaTypeImageManifest
         \<or> MediaType desc = MediaTypeDockerSchema2ManifestList
         \<or> MediaType desc = MediaTypeImageIndex
      then (([], Some StopHandler), s\<lparr>manifestStack := manifestStack s @ [desc]\<rparr>)
      else (([], None), s))"

text \<open>The spec's manifest-like media types, as a list of the four tags.\<close>

definition manifestLike :: "string \<Rightarrow> bool" where
  "manifestLike mt = (mt \<in> set [''application/vnd.docker.distribution.manifest.v2+json'',
                               ''application/vnd.oci.image.manifest.v1+json'',
                               ''application/vnd.docker.distribution.manifest.list.v2+json'',
                               ''application/vnd.oci.image.index.v1+json''])"

text \<open>
  \<open>Push\<close>, lines 432-442: the options, then the pusher of the resolver.
\<close>

definition Push_pusher ::
  "'w deps \<Rightarrow> string \<Rightarrow> 'w RemoteOpts list \<Rightarrow> 'w state \<Rightarrow> (error + 'w RemoteContext \<times> pusher) \<times> 'w state" where
  "Push_pusher c ref opts s =
     (case run (applyOpts opts (defaultRemoteContext c)) s of
        (Inl err, s1) \<Rightarrow> (Inl err, s1)
      | (Inr pushCtx, s1) \<Rightarrow>
          (case call (CallPusher ref) (Pusher (Resolver pushCtx) ref) s1 of
             (Inl err, s2) \<Rightarrow> (Inl err, s2)
           | (Inr p, s2) \<Rightarrow> (Inr (pushCtx, p), s2)))"

text \<open>\<open>Push\<close>, lines 463-467: the slice \<open>handlers\<close>.\<close>

definition Push_handlers :: "'w deps \<Rightarrow> 'w RemoteContext \<Rightarrow> pusher \<Rightarrow> 'w state handler list" where
  "Push_handlers c pushCtx p =
     map liftH (BaseHandlers pushCtx) @ [ChildrenHandler c, filterHandler, pushHandler c p]"

text \<open>
  \<open>Push\<close>, lines 474-479: \<open>for i := len(manifestStack) - 1; i >= 0; i--\<close>. The
  counter of the model is \<open>i + 1\<close>, so that it ends at \<open>0\<close> where \<open>i\<close> ends at
  \<open>-1\<close>; the body reads \<open>manifestStack[i]\<close> with \<open>0 \<le> i < len(manifestStack)\<close>.
\<close>

fun Push_loop :: "'w deps \<Rightarrow> pusher \<Rightarrow> nat \<Rightarrow> 'w state \<Rightarrow> error option \<times> 'w state" where
  "Push_loop c p 0 s = (None, s)"
| "Push_loop c p (Suc i) s =
     (case pushHandler c p (manifestStack s ! i) s of
        ((ch, Some err), s') \<Rightarrow> (Some err, s')
      | ((ch, None), s') \<Rightarrow> Push_loop c p i s')"

text \<open>
  \<open>Push\<close>: the result is the returned error, \<open>None\<close> for \<open>nil\<close>. The
  slice \<open>manifestStack\<close> is created empty (line 445); \<open>c.ContentStore()\<close> only
  builds a client value and is no call.
\<close>

definition Push ::
  "'w deps \<Rightarrow> string \<Rightarrow> descriptor \<Rightarrow> 'w RemoteOpts list \<Rightarrow> 'w state \<Rightarrow> (error option \<times> 'w state) option" where
  "Push c ref desc opts s =
     (case Push_pusher c ref opts s of
        (Inl err, s1) \<Rightarrow> Some (Some err, s1)
      | (Inr (pushCtx, p), s1) \<Rightarrow>
          (case dispatch c (Push_handlers c pushCtx p) desc
                  (s1\<lparr>manifestStack := [], calls := calls s1 @ [CallDispatch desc]\<rparr>) of
             None \<Rightarrow> None
           | Some (Some err, s2) \<Rightarrow> Some (Some err, s2)
           | Some (None, s2) \<Rightarrow> Some (Push_loop c p (length (manifestStack s2)) s2)))"

section \<open>Pull\<close>

text \<open>\<open>Pull\<close>, lines 356-371: the options, the resolution, the fetcher.\<close>

definition Pull_resolve ::
  "'w deps \<Rightarrow> string \<Rightarrow> 'w RemoteOpts list \<Rightarrow> 'w state \<Rightarrow>
     (error + 'w RemoteContext \<times> string \<times> descriptor \<times> fetcher) \<times> 'w state" where
  "Pull_resolve c ref opts s =
     (case run (applyOpts opts (defaultRemoteContext c)) s of
        (Inl err, s1) \<Rightarrow> (Inl err, s1)
      | (Inr pullCtx, s1) \<Rightarrow>
          (case call (CallResolve ref) (Resolve (Resolver pullCtx) ref) s1 of
             (Inl err, s2) \<Rightarrow> (Inl err, s2)
           | (Inr (name, desc), s2) \<Rightarrow>
               (case call (CallFetcher name) (Fetcher (Resolver pullCtx) name) s2 of
                  (Inl err, s3) \<Rightarrow> (Inl err, s3)
                | (Inr f, s3) \<Rightarrow> (Inr (pullCtx, name, desc, f), s3))))"

text \<open>
  \<open>Pull\<close>, lines 377-385: the handlers given to \<open>images.Handlers\<close> in each branch.
\<close>

definition Pull_handlers ::
  "'w deps \<Rightarrow> 'w RemoteContext \<Rightarrow> fetcher \<Rightarrow> descriptor \<Rightarrow> 'w state handler list" where
  "Pull_handlers c pullCtx f desc =
     (if MediaType desc = MediaTypeDockerSchema1Manifest \<and> ConvertSchema1 pullCtx
      then map liftH (BaseHandlers pullCtx) @ [schema1Converter c f]
      else map liftH (BaseHandlers pullCtx) @ [FetchHandler c f, ChildrenHandler c])"

text \<open>
  \<open>Pull\<close>, lines 390-395: \<open>schema1Converter != nil\<close> exactly when the first branch
  of lines 377-385 was taken.
\<close>

definition Pull_convert ::
  "'w deps \<Rightarrow> 'w RemoteContext \<Rightarrow> fetcher \<Rightarrow> descriptor \<Rightarrow> 'w state \<Rightarrow> (error + descriptor) \<times> 'w state" where
  "Pull_convert c pullCtx f desc s =
     (if MediaType desc = MediaTypeDockerSchema1Manifest \<and> ConvertSchema1 pullCtx
      then call (CallConvert f) (converterConvert c f) s
      else (Inr desc, s))"

text \<open>\<open>Pull\<close>, lines 402-416: update, and create when the update says NotFound.\<close>

definition Pull_upsert :: "'w deps \<Rightarrow> Image \<Rightarrow> 'w state \<Rightarrow> (error + Image) \<times> 'w state" where
  "Pull_upsert c imgrec s =
     (case call (CallUpdate imgrec [''target'']) (isUpdate c imgrec [''target'']) s of
        (Inl err, s1) \<Rightarrow>
          (if \<not> IsNotFound err then (Inl err, s1)
           else (case call (CallCreate imgrec) (isCreate c imgrec) s1 of
                   (Inl err', s2) \<Rightarrow> (Inl err', s2)
                 | (Inr created, s2) \<Rightarrow> (Inr created, s2)))
      | (Inr updated, s1) \<Rightarrow> (Inr updated, s1))"

text \<open>\<open>Pull\<close>, lines 418-427: the image of the record, unpacked when asked.\<close>

definition Pull_unpack ::
  "'w deps \<Rightarrow> 'w RemoteContext \<Rightarrow> Image \<Rightarrow> 'w state \<Rightarrow> (error + Image) \<times> 'w state" where
  "Pull_unpack c pullCtx imgrec s =
     (if Unpack pullCtx
      then (case call (CallUnpack imgrec (Snapshotter pullCtx))
                   (imageUnpack c imgrec (Snapshotter pullCtx)) s of
              (Some err, s1) \<Rightarrow> (Inl err, s1)
            | (None, s1) \<Rightarrow> (Inr imgrec, s1))
      else (Inr imgrec, s))"

text \<open>
  \<open>Pull\<close>: the result is the error or the image, which is its record \<open>imgrec\<close>
  (the other field of \<open>image\<close> is the client). \<open>c.ContentStore()\<close> and
  \<open>c.ImageService()\<close> only build client values and are no calls.
\<close>

definition Pull ::
  "'w deps \<Rightarrow> string \<Rightarrow> 'w RemoteOpts list \<Rightarrow> 'w state \<Rightarrow> ((error + Image) \<times> 'w state) option" where
  "Pull c ref opts s =
     (case Pull_resolve c ref opts s of
        (Inl err, s1) \<Rightarrow> Some (Inl err, s1)
      | (Inr (pullCtx, name, desc, f), s1) \<Rightarrow>
          (case dispatch c (Pull_handlers c pullCtx f desc) desc
                  (s1\<lparr>calls := calls s1 @ [CallDispatch desc]\<rparr>) of
             None \<Rightarrow> None
           | Some (Some err, s2) \<Rightarrow> Some (Inl err, s2)
           | Some (None, s2) \<Rightarrow>
               (case Pull_convert c pullCtx f desc s2 of
                  (Inl err, s3) \<Rightarrow> Some (Inl err, s3)
                | (Inr desc', s3) \<Rightarrow>
                    (case Pull_upsert c \<lparr>Name = name, Target = desc'\<rparr> s3 of
                       (Inl err, s4) \<Rightarrow> Some (Inl err, s4)
                     | (Inr imgrec, s4) \<Rightarrow> Some (Pull_unpack c pullCtx imgrec s4)))))"

section \<open>Import and Export\<close>

text \<open>\<open>ImportOpt\<close>: \<open>func(c *importOpts) error\<close>; the options are changed in place.\<close>

type_synonym ImportOpt = "importOpts \<Rightarrow> error option \<times> importOpts"

definition WithOCIImportFormat :: ImportOpt where
  "WithOCIImportFormat c =
     (if format c \<noteq> '''' then (Some (Errorf ''format already set''), c)
      else (None, c\<lparr>format := ociImageFormat\<rparr>))"

definition WithRefObject :: "string \<Rightarrow> ImportOpt" where
  "WithRefObject r c = (None, c\<lparr>refObject := r\<rparr>)"

fun applyImportOpts :: "ImportOpt list \<Rightarrow> importOpts \<Rightarrow> importOpts \<times> error option" where
  "applyImportOpts [] iopts = (iopts, None)"
| "applyImportOpts (opt # opts) iopts =
     (case opt iopts of
        (Some err, iopts') \<Rightarrow> (iopts', Some err)
      | (None, iopts') \<Rightarrow> applyImportOpts opts iopts')"

definition resolveImportOpt :: "'w deps \<Rightarrow> string \<Rightarrow> ImportOpt list \<Rightarrow> importOpts \<times> error option" where
  "resolveImportOpt c ref opts =
     (case applyImportOpts opts \<lparr>format = '''', refObject = ''''\<rparr> of
        (iopts, Some err) \<Rightarrow> (iopts, Some err)
      | (iopts, None) \<Rightarrow>
          (let iopts1 = (if format iopts = '''' then iopts\<lparr>format := ociImageFormat\<rparr> else iopts)
           in if refObject iopts1 = ''''
              then (case referenceParse c ref of
                      Inl err \<Rightarrow> (iopts1, Some err)
                    | Inr object \<Rightarrow> (iopts1\<lparr>refObject := object\<rparr>, None))
              else (iopts1, None)))"

definition Import ::
  "'w deps \<Rightarrow> string \<Rightarrow> string \<Rightarrow> ImportOpt list \<Rightarrow> 'w state \<Rightarrow> (error + Image) \<times> 'w state" where
  "Import c ref reader opts s =
     (case resolveImportOpt c ref opts of
        (iopts, Some err) \<Rightarrow> (Inl err, s)
      | (iopts, None) \<Rightarrow>
          (if format iopts = ociImageFormat
           then call (CallImportFromOCITar ref reader iopts) (importFromOCITar c ref reader iopts) s
           else (Inl (Errorf (''unsupported format: '' @ format iopts)), s)))"

text \<open>\<open>ExportOpt\<close>: \<open>func(c *exportOpts) error\<close>.\<close>

type_synonym ExportOpt = "exportOpts \<Rightarrow> error option \<times> exportOpts"

definition WithOCIExportFormat :: ExportOpt where
  "WithOCIExportFormat c =
     (if exportFormat c \<noteq> '''' then (Some (Errorf ''format already set''), c)
      else (None, c\<lparr>exportFormat := ociImageFormat\<rparr>))"

fun applyExportOpts :: "ExportOpt list \<Rightarrow> exportOpts \<Rightarrow> error + exportOpts" where
  "applyExportOpts [] eopts = Inr eopts"
| "applyExportOpts (opt # opts) eopts =
     (case opt eopts of
        (Some err, eopts') \<Rightarrow> Inl err
      | (None, eopts') \<Rightarrow> applyExportOpts opts eopts')"

text \<open>
  The reader that \<open>Export\<close> returns is the read end of a pipe whose write end is given
  to \<open>exportToOCITar(ctx, desc, pw, eopts)\<close> in a goroutine; the value names the
  arguments of that call.
\<close>

datatype pipeReader = ExportToOCITar descriptor exportOpts

definition Export :: "descriptor \<Rightarrow> ExportOpt list \<Rightarrow> error + pipeReader" where
  "Export desc opts =
     (case applyExportOpts opts \<lparr>exportFormat = ''''\<rparr> of
        Inl err \<Rightarrow> Inl err
      | Inr eopts \<Rightarrow>
          (let eopts1 = (if exportFormat eopts = '''' then eopts\<lparr>exportFormat := ociImageFormat\<rparr>
                         else eopts)
           in if exportFormat eopts1 = ociImageFormat
              then Inr (ExportToOCITar desc eopts1)
              else Inl (Errorf (''unsupported format: '' @ exportFormat eopts1))))"

section \<open>The image metadata registry of the spec\<close>

text \<open>
  Modelled from the spec: the image metadata registry (spec 6), whose implementation is
  not in client.go. It keeps one record per name; an update of a name that has no record
  fails with a NotFound-kind error and changes nothing; an update with the field path
  \<open>target\<close> replaces the target of the record in place; a create of a name that has a
  record fails.
\<close>

record registry =
  images :: "string \<rightharpoonup> Image"

definition regUpdate ::
  "Image \<Rightarrow> string list \<Rightarrow> 'a registry_scheme \<Rightarrow> (error + Image) \<times> 'a registry_scheme" where
  "regUpdate img fieldpaths w =
     (case images w (Name img) of
        None \<Rightarrow> (Inl (ErrNotFound (Name img)), w)
      | Some old \<Rightarrow>
          (Inr (old\<lparr>Target := Target img\<rparr>),
           w\<lparr>images := (images w)(Name img \<mapsto> old\<lparr>Target := Target img\<rparr>)\<rparr>))"

definition regCreate ::
  "Image \<Rightarrow> 'a registry_scheme \<Rightarrow> (error + Image) \<times> 'a registry_scheme" where
  "regCreate img w =
     (case images w (Name img) of
        Some old \<Rightarrow> (Inl (Errorf ''image already exists''), w)
      | None \<Rightarrow> (Inr img, w\<lparr>images := (images w)(Name img \<mapsto> img)\<rparr>))"

section \<open>A concrete world and concrete collaborators\<close>

text \<open>
  An instance of the collaborators on a small world, on which the model runs: a registry,
  the descriptors written to the content store, the descriptors uploaded, the digests
  that the remote refuses, and the (image name, snapshotter) pairs unpacked.
\<close>

record testWorld = registry +
  stored :: "descriptor list"
  uploaded :: "descriptor list"
  refused :: "string list"
  unpacked :: "(string \<times> string) list"

definition emptyWorld :: testWorld where
  "emptyWorld = \<lparr>images = Map.empty, stored = [], uploaded = [], refused = [], unpacked = []\<rparr>"

definition initState :: "'w \<Rightarrow> 'w state" where
  "initState w = \<lparr>world = w, calls = [], manifestStack = []\<rparr>"

definition mkDesc :: "string \<Rightarrow> string \<Rightarrow> descriptor" where
  "mkDesc mt dg = \<lparr>MediaType = mt, Digest = dg, Size = 1\<rparr>"

text \<open>
  The resolver of the instance resolves every reference but \<open>unknown\<close>: \<open>legacy\<close> to
  a schema 1 manifest, \<open>bundle\<close> to a blob that is not manifest-like, any other to an
  OCI manifest. It has a fetcher and a pusher for every name but \<open>offline\<close>.
\<close>

definition testResolve :: "string \<Rightarrow> testWorld \<Rightarrow> (error + string \<times> descriptor) \<times> testWorld" where
  "testResolve ref w =
     (if ref = ''unknown'' then (Inl (Errorf ''resolve failed''), w)
      else if ref = ''legacy'' then (Inr (ref, mkDesc MediaTypeDockerSchema1Manifest ''legacy''), w)
      else if ref = ''bundle'' then (Inr (ref, mkDesc ''application/octet-stream'' ''bundle''), w)
      else (Inr (ref, mkDesc MediaTypeImageManifest ref), w))"

definition testResolver :: "testWorld Resolver" where
  "testResolver =
     \<lparr>Resolve = testResolve,
      Fetcher = (\<lambda>name w. if name = ''offline'' then (Inl (Errorf ''no fetcher''), w) else (Inr 1, w)),
      Pusher = (\<lambda>ref w. if ref = ''offline'' then (Inl (Errorf ''no pusher''), w) else (Inr 2, w))\<rparr>"

text \<open>
  The same resolver, but for a registry that serves a schema 1 manifest under a name for
  which it gives no fetcher.
\<close>

definition legacyOfflineResolver :: "testWorld Resolver" where
  "legacyOfflineResolver =
     testResolver\<lparr>Resolve := (\<lambda>ref w. (Inr (''offline'', mkDesc MediaTypeDockerSchema1Manifest ''legacy''), w))\<rparr>"

text \<open>
  The content graph of the instance: \<open>bundle\<close> has the manifests \<open>m1\<close> and \<open>m2\<close>
  as children, \<open>m1\<close> has the layer \<open>l1\<close>, every other descriptor is a leaf.
\<close>

definition testChildren :: "descriptor \<Rightarrow> descriptor list" where
  "testChildren desc =
     (if Digest desc = ''bundle''
      then [mkDesc MediaTypeImageManifest ''m1'', mkDesc MediaTypeDockerSchema2Manifest ''m2'']
      else if Digest desc = ''m1'' then [mkDesc ''application/vnd.oci.image.layer.v1.tar'' ''l1'']
      else [])"

definition testDeps :: "testWorld deps" where
  "testDeps =
     \<lparr>dockerResolver = testResolver,
      dispatch = (\<lambda>hs desc. Dispatch 8 (Handlers hs) [desc]),
      fetch = (\<lambda>f desc w. (None, w\<lparr>stored := stored w @ [desc]\<rparr>)),
      children = (\<lambda>desc w. ((testChildren desc, None), w)),
      converterHandle = (\<lambda>f desc w. (([], None), w\<lparr>stored := stored w @ [desc]\<rparr>)),
      converterConvert = (\<lambda>f w. (Inr (mkDesc MediaTypeImageManifest ''converted''), w)),
      pushBlob = (\<lambda>p desc w.
         if Digest desc \<in> set (refused w)
         then (([], Some (Errorf ''upload failed'')), w)
         else (([], None), w\<lparr>uploaded := uploaded w @ [desc]\<rparr>)),
      isUpdate = regUpdate,
      isCreate = regCreate,
      imageUnpack = (\<lambda>img sn w.
         if sn = ''broken'' then (Some (Errorf ''unpack failed''), w)
         else (None, w\<lparr>unpacked := unpacked w @ [(Name img, sn)]\<rparr>)),
      referenceParse = (\<lambda>ref. if ref = '''' then Inl (Errorf ''invalid reference'') else Inr ref),
      importFromOCITar = (\<lambda>ref reader iopts w.
         (Inr \<lparr>Name = ref, Target = mkDesc MediaTypeImageManifest (refObject iopts)\<rparr>, w))\<rparr>"

text \<open>The same collaborators, with a schema 1 converter whose \<open>Convert\<close> fails.\<close>

definition brokenConverterDeps :: "testWorld deps" where
  "brokenConverterDeps =
     testDeps\<lparr>converterConvert := (\<lambda>f w. (Inl (Errorf ''conversion failed''), w))\<rparr>"

text \<open>
  An option that fails; base handlers that fail, that pass and that stop; an import and an
  export option that ask for another format.
\<close>

definition failingOpt :: "testWorld RemoteOpts" where
  "failingOpt c w = ((Some (Errorf ''bad option''), c), w)"

definition failingHandler :: "testWorld handler" where
  "failingHandler desc w = (([], Some (Errorf ''handler failed'')), w)"

definition WithDockerImportFormat :: ImportOpt where
  "WithDockerImportFormat c = (None, c\<lparr>format := ''docker''\<rparr>)"

definition WithDockerExportFormat :: ExportOpt where
  "WithDockerExportFormat c = (None, c\<lparr>exportFormat := ''docker''\<rparr>)"

definition progressHandler :: "testWorld handler" where
  "progressHandler desc w = (([], None), w)"

definition stoppingHandler :: "testWorld handler" where
  "stoppingHandler desc w = (([], Some StopHandler), w)"

text \<open>The descriptors and the initial state that the runs below use.\<close>

definition bundleDesc :: descriptor where
  "bundleDesc = mkDesc ''application/octet-stream'' ''bundle''"

definition m1Desc :: descriptor where
  "m1Desc = mkDesc MediaTypeImageManifest ''m1''"

definition m2Desc :: descriptor where
  "m2Desc = mkDesc MediaTypeDockerSchema2Manifest ''m2''"

definition alpineDesc :: descriptor where
  "alpineDesc = mkDesc MediaTypeImageManifest ''alpine''"

definition legacyDesc :: descriptor where
  "legacyDesc = mkDesc MediaTypeDockerSchema1Manifest ''legacy''"

definition convertedDesc :: descriptor where
  "convertedDesc = mkDesc MediaTypeImageManifest ''converted''"

definition S0 :: "testWorld state" where
  "S0 = initState emptyWorld"

section \<open>Auxiliary facts\<close>

lemmas model_defs = run_def call_def liftH_def ChildrenHandler_def schema1Converter_def
  pushHandler_def FetchHandler_def filterHandler_def defaultRemoteContext_def
  MediaTypeDockerSchema1Manifest_def MediaTypeDockerSchema2Manifest_def
  MediaTypeDockerSchema2ManifestList_def MediaTypeImageManifest_def MediaTypeImageIndex_def

lemmas test_defs = testDeps_def testResolver_def testResolve_def testChildren_def mkDesc_def
  emptyWorld_def initState_def regUpdate_def regCreate_def legacyOfflineResolver_def
  failingOpt_def failingHandler_def stoppingHandler_def progressHandler_def brokenConverterDeps_def bundleDesc_def m1Desc_def m2Desc_def
  alpineDesc_def legacyDesc_def convertedDesc_def S0_def

lemma pushHandler_effect:
  "pushHandler c p d s = (r, s') \<Longrightarrow>
     calls s' = calls s @ [CallPush p d] \<and> manifestStack s' = manifestStack s"
  by (auto simp: pushHandler_def call_def run_def split: prod.splits)

lemma rev_drop_take_Suc:
  "i < n \<Longrightarrow> n < length ms \<Longrightarrow>
     rev (drop (Suc i) (take (Suc n) ms)) = ms ! n # rev (drop (Suc i) (take n ms))"
  by (simp add: take_Suc_conv_app_nth)

lemma Push_loop_trace:
  "n \<le> length (manifestStack s) \<Longrightarrow>
   (case Push_loop c p n s of
      (None, s') \<Rightarrow>
        calls s' = calls s @ map (CallPush p) (rev (take n (manifestStack s)))
        \<and> (\<forall>i<n. \<exists>si ch s''.
              pushHandler c p (manifestStack s ! i) si = ((ch, None), s'')
              \<and> calls si = calls s @ map (CallPush p) (rev (drop (Suc i) (take n (manifestStack s)))))
    | (Some e, s') \<Rightarrow>
        (\<exists>i<n. \<exists>si ch.
              pushHandler c p (manifestStack s ! i) si = ((ch, Some e), s')
              \<and> calls si = calls s @ map (CallPush p) (rev (drop (Suc i) (take n (manifestStack s))))))"
proof (induction n arbitrary: s)
  case 0
  then show ?case by simp
next
  case (Suc n)
  let ?ms = "manifestStack s"
  obtain ch e s1 where h: "pushHandler c p (?ms ! n) s = ((ch, e), s1)"
    by (metis prod.exhaust)
  from pushHandler_effect[OF h]
  have c1: "calls s1 = calls s @ [CallPush p (?ms ! n)]" and m1: "manifestStack s1 = ?ms"
    by simp_all
  from Suc.prems have n: "n < length ?ms" by simp
  show ?case
  proof (cases e)
    case (Some err)
    have "pushHandler c p (?ms ! n) s = ((ch, Some err), s1)
          \<and> calls s = calls s @ map (CallPush p) (rev (drop (Suc n) (take (Suc n) ?ms)))"
      using h Some by simp
    then have "\<exists>i<Suc n. \<exists>si ch.
              pushHandler c p (?ms ! i) si = ((ch, Some err), s1)
              \<and> calls si = calls s @ map (CallPush p) (rev (drop (Suc i) (take (Suc n) ?ms)))"
      by blast
    then show ?thesis using h Some by simp
  next
    case None
    have step: "Push_loop c p (Suc n) s = Push_loop c p n s1" using h None by simp
    have le: "n \<le> length (manifestStack s1)" using n m1 by simp
    note IH = Suc.IH[OF le]
    obtain r s' where res: "Push_loop c p n s1 = (r, s')" by (metis prod.exhaust)
    show ?thesis
    proof (cases r)
      case (Some err)
      with IH res obtain i si ch' where i: "i < n"
        and hi: "pushHandler c p (manifestStack s1 ! i) si = ((ch', Some err), s')"
        and ci: "calls si = calls s1 @ map (CallPush p) (rev (drop (Suc i) (take n (manifestStack s1))))"
        by auto
      have "calls si = calls s @ map (CallPush p) (rev (drop (Suc i) (take (Suc n) ?ms)))"
        using ci c1 m1 rev_drop_take_Suc[OF i n] by simp
      with hi i m1 have "\<exists>i<Suc n. \<exists>si ch.
              pushHandler c p (?ms ! i) si = ((ch, Some err), s')
              \<and> calls si = calls s @ map (CallPush p) (rev (drop (Suc i) (take (Suc n) ?ms)))"
        by (metis less_Suc_eq)
      then show ?thesis using step res Some by simp
    next
      case None2: None
      from IH res None2 have
        cs: "calls s' = calls s1 @ map (CallPush p) (rev (take n (manifestStack s1)))"
        and al: "\<forall>i<n. \<exists>si ch s''.
              pushHandler c p (manifestStack s1 ! i) si = ((ch, None), s'')
              \<and> calls si = calls s1 @ map (CallPush p) (rev (drop (Suc i) (take n (manifestStack s1))))"
        by auto
      have cs': "calls s' = calls s @ map (CallPush p) (rev (take (Suc n) ?ms))"
        using cs c1 m1 n by (simp add: take_Suc_conv_app_nth)
      have al': "\<exists>si ch s''.
              pushHandler c p (?ms ! i) si = ((ch, None), s'')
              \<and> calls si = calls s @ map (CallPush p) (rev (drop (Suc i) (take (Suc n) ?ms)))"
        if "i < Suc n" for i
      proof (cases "i = n")
        case True
        then show ?thesis using h None by auto
      next
        case False
        with that have i: "i < n" by simp
        from al i obtain si ch' s'' where
          "pushHandler c p (manifestStack s1 ! i) si = ((ch', None), s'')"
          "calls si = calls s1 @ map (CallPush p) (rev (drop (Suc i) (take n (manifestStack s1))))"
          by blast
        then show ?thesis using c1 m1 rev_drop_take_Suc[OF i n] by auto
      qed
      show ?thesis using step res None2 cs' al' by simp
    qed
  qed
qed


lemma rev_prefix_nth:
  assumes "cs' = cs @ map f (take k (rev ms))" and "j < length ms" and "length ms - Suc j < k"
  shows "cs' ! (length cs + (length ms - Suc j)) = f (ms ! j)"
proof -
  have a: "length ms - Suc j < length ms" using assms(2) by simp
  have "cs' ! (length cs + (length ms - Suc j)) = map f (take k (rev ms)) ! (length ms - Suc j)"
    using assms(1) by simp
  also have "\<dots> = f (rev ms ! (length ms - Suc j))"
    using assms(3) a by simp
  also have "rev ms ! (length ms - Suc j) = ms ! j"
    using assms(2) a by (simp add: rev_nth)
  finally show ?thesis .
qed

lemma Push_loop_prefix:
  assumes "Push_loop c p (length (manifestStack s)) s = (r, s')"
  shows "\<exists>k\<le>length (manifestStack s).
           calls s' = calls s @ map (CallPush p) (take k (rev (manifestStack s)))
           \<and> (r = None \<longrightarrow> k = length (manifestStack s))"
proof (cases r)
  case None
  with Push_loop_trace[where n="length (manifestStack s)" and s=s and c=c and p=p] assms
  have "calls s' = calls s @ map (CallPush p) (rev (manifestStack s))" by simp
  then show ?thesis by auto
next
  case (Some e)
  let ?ms = "manifestStack s"
  from Push_loop_trace[where n="length ?ms" and s=s and c=c and p=p] assms Some
  obtain i si ch where i: "i < length ?ms"
    and hi: "pushHandler c p (?ms ! i) si = ((ch, Some e), s')"
    and ci: "calls si = calls s @ map (CallPush p) (rev (drop (Suc i) ?ms))"
    by auto
  from pushHandler_effect[OF hi] ci
  have "calls s' = calls s @ map (CallPush p) (rev (?ms ! i # drop (Suc i) ?ms))" by simp
  also have "?ms ! i # drop (Suc i) ?ms = drop i ?ms" using i by (simp add: Cons_nth_drop_Suc)
  also have "rev (drop i ?ms) = take (length ?ms - i) (rev ?ms)" by (simp add: rev_drop)
  finally have "calls s' = calls s @ map (CallPush p) (take (length ?ms - i) (rev ?ms))" .
  moreover have "length ?ms - i \<le> length ?ms" by simp
  ultimately show ?thesis using Some by blast
qed

lemma applyOpts_append_fail:
  assumes "applyOpts os1 ctx w = (Inr ctx1, w1)" and "opt ctx1 w1 = ((Some e, ctx2), w2)"
  shows "applyOpts (os1 @ opt # os2) ctx w = (Inl e, w2)"
  using assms by (induction os1 arbitrary: ctx w) (auto split: prod.splits option.splits)

lemma Pull_resolve_calls:
  assumes "Pull_resolve c ref opts s = (Inr (pullCtx, name, desc, f), s1)"
  shows "calls s1 = calls s @ [CallResolve ref, CallFetcher name]"
  using assms
  by (auto simp: Pull_resolve_def run_def call_def split: prod.splits sum.splits)

lemma Pull_upsert_calls:
  "\<exists>rest. calls (snd (Pull_upsert c imgrec s)) = calls s @ CallUpdate imgrec [''target''] # rest
      \<and> (rest = [] \<or> rest = [CallCreate imgrec])"
  by (auto simp: Pull_upsert_def call_def run_def split: prod.splits sum.splits)

lemma applyImportOpts_append:
  "applyImportOpts os iopts = (iopts', None) \<Longrightarrow>
     applyImportOpts (os @ os') iopts = applyImportOpts os' iopts'"
  by (induction os arbitrary: iopts) (auto split: prod.splits option.splits)

lemma applyExportOpts_append:
  "applyExportOpts os eopts = Inr eopts' \<Longrightarrow>
     applyExportOpts (os @ os') eopts = applyExportOpts os' eopts'"
  by (induction os arbitrary: eopts) (auto split: prod.splits option.splits)

lemma Handlers_error_no_children:
  "Handlers hs desc s = ((ch, Some err), s') \<Longrightarrow> ch = []"
  by (cases hs) (auto split: prod.splits option.splits)

lemma Handlers_append:
  "Handlers (hs1 @ hs2) desc s =
     (case Handlers hs1 desc s of
        ((ch, Some err), s') \<Rightarrow> (([], Some err), s')
      | ((ch, None), s') \<Rightarrow>
          (case Handlers hs2 desc s' of
             ((ch', Some err), s'') \<Rightarrow> (([], Some err), s'')
           | ((ch', None), s'') \<Rightarrow> ((ch @ ch', None), s'')))"
  by (induction hs1 arbitrary: s)
     (auto split: prod.splits option.splits dest: Handlers_error_no_children)

lemma Handlers_liftH_calls:
  "Handlers (map liftH hs) desc s = (r, s') \<Longrightarrow> calls s' = calls s"
  by (induction hs arbitrary: s r s')
     (auto simp: liftH_def run_def split: prod.splits option.splits)

lemma imageUnpack_handlers:
  "FetchHandler (c\<lparr>imageUnpack := u\<rparr>) = FetchHandler c"
  "ChildrenHandler (c\<lparr>imageUnpack := u\<rparr>) = ChildrenHandler c"
  "schema1Converter (c\<lparr>imageUnpack := u\<rparr>) = schema1Converter c"
  by (simp_all add: fun_eq_iff FetchHandler_def ChildrenHandler_def schema1Converter_def)

lemma imageUnpack_irrelevant:
  "defaultRemoteContext (c\<lparr>imageUnpack := u\<rparr>) = defaultRemoteContext c"
  "Pull_resolve (c\<lparr>imageUnpack := u\<rparr>) = Pull_resolve c"
  "Pull_handlers (c\<lparr>imageUnpack := u\<rparr>) = Pull_handlers c"
  "Pull_convert (c\<lparr>imageUnpack := u\<rparr>) = Pull_convert c"
  "Pull_upsert (c\<lparr>imageUnpack := u\<rparr>) = Pull_upsert c"
  "dispatch (c\<lparr>imageUnpack := u\<rparr>) = dispatch c"
proof -
  show d: "defaultRemoteContext (c\<lparr>imageUnpack := u\<rparr>) = defaultRemoteContext c"
    by (simp add: defaultRemoteContext_def)
  show "Pull_resolve (c\<lparr>imageUnpack := u\<rparr>) = Pull_resolve c"
    by (simp add: fun_eq_iff Pull_resolve_def d)
  show "Pull_handlers (c\<lparr>imageUnpack := u\<rparr>) = Pull_handlers c"
    by (simp add: fun_eq_iff Pull_handlers_def imageUnpack_handlers)
  show "Pull_convert (c\<lparr>imageUnpack := u\<rparr>) = Pull_convert c"
    by (intro ext) (simp add: Pull_convert_def)
  show "Pull_upsert (c\<lparr>imageUnpack := u\<rparr>) = Pull_upsert c"
    by (intro ext) (simp add: Pull_upsert_def split: prod.splits sum.splits)
  show "dispatch (c\<lparr>imageUnpack := u\<rparr>) = dispatch c" by simp
qed

lemma Pull_resolve_context:
  "Pull_resolve c ref opts s = (Inr (pullCtx, name, desc, f), s1) \<Longrightarrow>
     fst (applyOpts opts (defaultRemoteContext c) (world s)) = Inr pullCtx"
  by (auto simp: Pull_resolve_def run_def split: prod.splits sum.splits)

section \<open>The claims\<close>

subsection \<open>C1\<close>

text \<open>
  Claim C1. When the options and the pusher are obtained and the dispatch of \<open>Push\<close>
  succeeds, leaving the manifest stack \<open>ms\<close>, \<open>Push\<close> returns, and the calls of
  the upload handler that it makes after the dispatch are those on the first \<open>k\<close>
  entries of \<open>rev ms\<close>, in that order, with \<open>k = length ms\<close> when \<open>Push\<close>
  returns no error. So for two entries at the indices \<open>i < j\<close> of the stack (the entry
  at \<open>j\<close> was appended later), whenever the entry at \<open>i\<close> is uploaded in this pass,
  the entry at \<open>j\<close> was uploaded at an earlier position of the call sequence; the calls
  are sequential, so that upload had returned.
\<close>

theorem Push_uploads_manifests_in_reverse:
  assumes "Push_pusher c ref opts s = (Inr (pushCtx, p), s1)"
    and "dispatch c (Push_handlers c pushCtx p) desc
           (s1\<lparr>manifestStack := [], calls := calls s1 @ [CallDispatch desc]\<rparr>) = Some (None, s2)"
  shows "\<exists>r s' k. Push c ref desc opts s = Some (r, s')
           \<and> k \<le> length (manifestStack s2)
           \<and> calls s' = calls s2 @ map (CallPush p) (take k (rev (manifestStack s2)))
           \<and> (r = None \<longrightarrow> k = length (manifestStack s2))
           \<and> (\<forall>i j. i < j \<and> j < length (manifestStack s2) \<and> length (manifestStack s2) - Suc i < k
                 \<longrightarrow> length (manifestStack s2) - Suc j < length (manifestStack s2) - Suc i
                   \<and> calls s' ! (length (calls s2) + (length (manifestStack s2) - Suc j))
                       = CallPush p (manifestStack s2 ! j)
                   \<and> calls s' ! (length (calls s2) + (length (manifestStack s2) - Suc i))
                       = CallPush p (manifestStack s2 ! i))"
proof -
  let ?ms = "manifestStack s2"
  obtain r s' where res: "Push_loop c p (length ?ms) s2 = (r, s')" by (metis prod.exhaust)
  have push: "Push c ref desc opts s = Some (r, s')"
    using assms res by (simp add: Push_def)
  from Push_loop_prefix[OF res] obtain k where k: "k \<le> length ?ms"
    and cs: "calls s' = calls s2 @ map (CallPush p) (take k (rev ?ms))"
    and all: "r = None \<longrightarrow> k = length ?ms" by blast
  have ord: "length ?ms - Suc j < length ?ms - Suc i
       \<and> calls s' ! (length (calls s2) + (length ?ms - Suc j)) = CallPush p (?ms ! j)
       \<and> calls s' ! (length (calls s2) + (length ?ms - Suc i)) = CallPush p (?ms ! i)"
    if "i < j \<and> j < length ?ms \<and> length ?ms - Suc i < k" for i j
  proof -
    from that have ij: "i < j" and j: "j < length ?ms" and ik: "length ?ms - Suc i < k" by simp_all
    have lt: "length ?ms - Suc j < length ?ms - Suc i" using ij j by arith
    have jk: "length ?ms - Suc j < k" using lt ik by simp
    have i: "i < length ?ms" using ij j by simp
    show ?thesis using lt rev_prefix_nth[OF cs j jk] rev_prefix_nth[OF cs i ik] by simp
  qed
  show ?thesis using push k cs all ord by blast
qed

text \<open>The theorem at a run of the concrete instance.\<close>

theorem Push_uploads_manifests_in_reverse_witness:
  "Push_pusher testDeps ''bundle'' [] S0 =
      (Inr (defaultRemoteContext testDeps, 2), S0\<lparr>calls := [CallPusher ''bundle'']\<rparr>)
   \<and> dispatch testDeps (Push_handlers testDeps (defaultRemoteContext testDeps) 2) bundleDesc
        (S0\<lparr>calls := [CallPusher ''bundle''], manifestStack := [],
            calls := calls (S0\<lparr>calls := [CallPusher ''bundle'']\<rparr>) @ [CallDispatch bundleDesc]\<rparr>)
      = Some (None,
          S0\<lparr>world := emptyWorld\<lparr>uploaded := [bundleDesc]\<rparr>,
             calls := [CallPusher ''bundle'', CallDispatch bundleDesc, CallChildren bundleDesc,
                       CallPush 2 bundleDesc, CallChildren m1Desc, CallChildren m2Desc],
             manifestStack := [m1Desc, m2Desc]\<rparr>)
   \<and> Push testDeps ''bundle'' bundleDesc [] S0 =
        Some (None,
          S0\<lparr>world := emptyWorld\<lparr>uploaded := [bundleDesc, m2Desc, m1Desc]\<rparr>,
             calls := [CallPusher ''bundle'', CallDispatch bundleDesc, CallChildren bundleDesc,
                       CallPush 2 bundleDesc, CallChildren m1Desc, CallChildren m2Desc,
                       CallPush 2 m2Desc, CallPush 2 m1Desc],
             manifestStack := [m1Desc, m2Desc]\<rparr>)"
proof -
  have h1: "Push_pusher testDeps ''bundle'' [] S0 =
      (Inr (defaultRemoteContext testDeps, 2), S0\<lparr>calls := [CallPusher ''bundle'']\<rparr>)"
    by (simp add: Push_pusher_def model_defs test_defs)
  have h2: "dispatch testDeps (Push_handlers testDeps (defaultRemoteContext testDeps) 2) bundleDesc
        (S0\<lparr>calls := [CallPusher ''bundle''], manifestStack := [],
            calls := calls (S0\<lparr>calls := [CallPusher ''bundle'']\<rparr>) @ [CallDispatch bundleDesc]\<rparr>)
      = Some (None,
          S0\<lparr>world := emptyWorld\<lparr>uploaded := [bundleDesc]\<rparr>,
             calls := [CallPusher ''bundle'', CallDispatch bundleDesc, CallChildren bundleDesc,
                       CallPush 2 bundleDesc, CallChildren m1Desc, CallChildren m2Desc],
             manifestStack := [m1Desc, m2Desc]\<rparr>)"
    by (simp add: Push_handlers_def model_defs test_defs eval_nat_numeral)
  have h3: "Push testDeps ''bundle'' bundleDesc [] S0 =
        Some (None,
          S0\<lparr>world := emptyWorld\<lparr>uploaded := [bundleDesc, m2Desc, m1Desc]\<rparr>,
             calls := [CallPusher ''bundle'', CallDispatch bundleDesc, CallChildren bundleDesc,
                       CallPush 2 bundleDesc, CallChildren m1Desc, CallChildren m2Desc,
                       CallPush 2 m2Desc, CallPush 2 m1Desc],
             manifestStack := [m1Desc, m2Desc]\<rparr>)"
    using h1 h2 by (simp add: Push_def model_defs test_defs eval_nat_numeral)
  show ?thesis
    using Push_uploads_manifests_in_reverse[OF h1 h2] h1 h2 h3 by blast
qed

subsection \<open>C2\<close>

text \<open>
  Claim C2. On a descriptor whose media type is one of the four manifest-like types, the
  filter handler of \<open>Push\<close> appends the descriptor to the manifest stack and returns
  no children and \<open>StopHandler\<close>; on any other descriptor it returns no children and
  no error, and leaves the state, the manifest stack included, as it was.
\<close>

theorem filterHandler_stops_on_manifests:
  "(manifestLike (MediaType desc) \<longrightarrow>
      filterHandler desc s = (([], Some StopHandler), s\<lparr>manifestStack := manifestStack s @ [desc]\<rparr>))
   \<and> (\<not> manifestLike (MediaType desc) \<longrightarrow> filterHandler desc s = (([], None), s))"
  by (simp add: filterHandler_def manifestLike_def MediaTypeDockerSchema2Manifest_def
      MediaTypeImageManifest_def MediaTypeDockerSchema2ManifestList_def MediaTypeImageIndex_def)

text \<open>The theorem at a run of the concrete instance.\<close>

theorem filterHandler_stops_on_manifests_witness:
  "manifestLike (MediaType m1Desc) \<and> manifestLike (MediaType m2Desc)
   \<and> filterHandler m1Desc S0 = (([], Some StopHandler), S0\<lparr>manifestStack := [m1Desc]\<rparr>)
   \<and> filterHandler m2Desc (S0\<lparr>manifestStack := [m1Desc]\<rparr>)
        = (([], Some StopHandler), S0\<lparr>manifestStack := [m1Desc, m2Desc]\<rparr>)
   \<and> \<not> manifestLike (MediaType bundleDesc)
   \<and> filterHandler bundleDesc (S0\<lparr>manifestStack := [m1Desc]\<rparr>)
        = (([], None), S0\<lparr>manifestStack := [m1Desc]\<rparr>)"
  using filterHandler_stops_on_manifests[of m1Desc S0]
    filterHandler_stops_on_manifests[of m2Desc "S0\<lparr>manifestStack := [m1Desc]\<rparr>"]
    filterHandler_stops_on_manifests[of bundleDesc "S0\<lparr>manifestStack := [m1Desc]\<rparr>"]
  by (simp add: manifestLike_def model_defs test_defs)

subsection \<open>C3\<close>

text \<open>
  Claim C3, as amended. Let the dispatch of \<open>Pull\<close> succeed and the target
  descriptor \<open>desc'\<close> be obtained: it is the resolved descriptor, or, when the
  schema 1 converter is installed, the descriptor that its \<open>Convert\<close> returns.
  \<open>Pull\<close> calls the update of the image service on the record of the resolved name
  and \<open>desc'\<close>. If the update returns a record, no create is called. If it returns an
  error that is not NotFound, \<open>Pull\<close> returns that error and no create is called. If
  it returns a NotFound error, \<open>Pull\<close> calls the create on the same record, and
  returns the error of the create if there is one. When the image service is the registry
  of the spec, a name without a record gets the record created, and a name with a record
  keeps its record with the target replaced.
\<close>

theorem Pull_update_then_create:
  fixes c :: "'a registry_scheme deps"
  assumes "Pull_resolve c ref opts s = (Inr (pullCtx, name, desc, f), s1)"
    and "dispatch c (Pull_handlers c pullCtx f desc) desc
           (s1\<lparr>calls := calls s1 @ [CallDispatch desc]\<rparr>) = Some (None, s2)"
    and "Pull_convert c pullCtx f desc s2 = (Inr desc', s3)"
    and "imgrec = \<lparr>Name = name, Target = desc'\<rparr>"
  shows "(\<forall>updated w. isUpdate c imgrec [''target''] (world s3) = (Inr updated, w) \<longrightarrow>
            Pull c ref opts s = Some (Pull_unpack c pullCtx updated
              (s3\<lparr>calls := calls s3 @ [CallUpdate imgrec [''target'']], world := w\<rparr>)))
       \<and> (\<forall>e w. isUpdate c imgrec [''target''] (world s3) = (Inl e, w) \<and> \<not> IsNotFound e \<longrightarrow>
            Pull c ref opts s =
              Some (Inl e, s3\<lparr>calls := calls s3 @ [CallUpdate imgrec [''target'']], world := w\<rparr>))
       \<and> (\<forall>e w e' w'. isUpdate c imgrec [''target''] (world s3) = (Inl e, w) \<and> IsNotFound e
              \<and> isCreate c imgrec w = (Inl e', w') \<longrightarrow>
            Pull c ref opts s =
              Some (Inl e', s3\<lparr>calls := calls s3 @ [CallUpdate imgrec [''target''], CallCreate imgrec],
                                world := w'\<rparr>))
       \<and> (\<forall>e w created w'. isUpdate c imgrec [''target''] (world s3) = (Inl e, w) \<and> IsNotFound e
              \<and> isCreate c imgrec w = (Inr created, w') \<longrightarrow>
            Pull c ref opts s = Some (Pull_unpack c pullCtx created
              (s3\<lparr>calls := calls s3 @ [CallUpdate imgrec [''target''], CallCreate imgrec], world := w'\<rparr>)))
       \<and> (isUpdate c = regUpdate \<and> isCreate c = regCreate \<longrightarrow>
            (images (world s3) name = None \<longrightarrow>
               Pull c ref opts s = Some (Pull_unpack c pullCtx imgrec
                 (s3\<lparr>calls := calls s3 @ [CallUpdate imgrec [''target''], CallCreate imgrec],
                     world := (world s3)\<lparr>images := (images (world s3))(name \<mapsto> imgrec)\<rparr>\<rparr>)))
          \<and> (\<forall>old. images (world s3) name = Some old \<longrightarrow>
               Pull c ref opts s = Some (Pull_unpack c pullCtx (old\<lparr>Target := desc'\<rparr>)
                 (s3\<lparr>calls := calls s3 @ [CallUpdate imgrec [''target'']],
                     world := (world s3)\<lparr>images := (images (world s3))(name \<mapsto> old\<lparr>Target := desc'\<rparr>)\<rparr>\<rparr>))))"
  using assms
  by (simp add: Pull_def Pull_upsert_def call_def run_def regUpdate_def regCreate_def)

text \<open>The theorem at a run of the concrete instance.\<close>

theorem Pull_update_then_create_witness:
  "Pull_resolve testDeps ''alpine'' [] S0
     = (Inr (defaultRemoteContext testDeps, ''alpine'', alpineDesc, 1),
        S0\<lparr>calls := [CallResolve ''alpine'', CallFetcher ''alpine'']\<rparr>)
   \<and> Pull testDeps ''alpine'' [] S0
     = Some (Inr \<lparr>Name = ''alpine'', Target = alpineDesc\<rparr>,
        S0\<lparr>world := emptyWorld\<lparr>stored := [alpineDesc],
                                   images := [''alpine'' \<mapsto> \<lparr>Name = ''alpine'', Target = alpineDesc\<rparr>]\<rparr>,
            calls := [CallResolve ''alpine'', CallFetcher ''alpine'', CallDispatch alpineDesc,
                      CallFetch 1 alpineDesc, CallChildren alpineDesc,
                      CallUpdate \<lparr>Name = ''alpine'', Target = alpineDesc\<rparr> [''target''],
                      CallCreate \<lparr>Name = ''alpine'', Target = alpineDesc\<rparr>]\<rparr>)
   \<and> Pull testDeps ''alpine'' []
        (S0\<lparr>world := emptyWorld\<lparr>images := [''alpine'' \<mapsto> \<lparr>Name = ''alpine'', Target = m1Desc\<rparr>]\<rparr>\<rparr>)
     = Some (Inr \<lparr>Name = ''alpine'', Target = alpineDesc\<rparr>,
        S0\<lparr>world := emptyWorld\<lparr>stored := [alpineDesc],
                                   images := [''alpine'' \<mapsto> \<lparr>Name = ''alpine'', Target = alpineDesc\<rparr>]\<rparr>,
            calls := [CallResolve ''alpine'', CallFetcher ''alpine'', CallDispatch alpineDesc,
                      CallFetch 1 alpineDesc, CallChildren alpineDesc,
                      CallUpdate \<lparr>Name = ''alpine'', Target = alpineDesc\<rparr> [''target'']]\<rparr>)"
proof -
  let ?img = "\<lparr>Name = ''alpine'', Target = alpineDesc\<rparr>"
  let ?old = "\<lparr>Name = ''alpine'', Target = m1Desc\<rparr>"
  let ?ctx = "defaultRemoteContext testDeps"
  have r: "Pull_resolve testDeps ''alpine'' [] (S0\<lparr>world := emptyWorld\<lparr>images := m\<rparr>\<rparr>)
     = (Inr (?ctx, ''alpine'', alpineDesc, 1),
        S0\<lparr>world := emptyWorld\<lparr>images := m\<rparr>, calls := [CallResolve ''alpine'', CallFetcher ''alpine'']\<rparr>)" for m
    by (simp add: Pull_resolve_def model_defs test_defs)
  have d: "dispatch testDeps (Pull_handlers testDeps ?ctx 1 alpineDesc) alpineDesc
             (S0\<lparr>world := emptyWorld\<lparr>images := m\<rparr>, calls := [CallResolve ''alpine'', CallFetcher ''alpine''],
                 calls := calls (S0\<lparr>world := emptyWorld\<lparr>images := m\<rparr>,
                                    calls := [CallResolve ''alpine'', CallFetcher ''alpine'']\<rparr>)
                            @ [CallDispatch alpineDesc]\<rparr>)
           = Some (None, S0\<lparr>world := emptyWorld\<lparr>images := m, stored := [alpineDesc]\<rparr>,
                 calls := [CallResolve ''alpine'', CallFetcher ''alpine'', CallDispatch alpineDesc,
                           CallFetch 1 alpineDesc, CallChildren alpineDesc]\<rparr>)" for m
    by (simp add: Pull_handlers_def model_defs test_defs eval_nat_numeral)
  have cv: "Pull_convert testDeps ?ctx 1 alpineDesc
              (S0\<lparr>world := emptyWorld\<lparr>images := m, stored := [alpineDesc]\<rparr>,
                 calls := [CallResolve ''alpine'', CallFetcher ''alpine'', CallDispatch alpineDesc,
                           CallFetch 1 alpineDesc, CallChildren alpineDesc]\<rparr>)
        = (Inr alpineDesc, S0\<lparr>world := emptyWorld\<lparr>images := m, stored := [alpineDesc]\<rparr>,
                 calls := [CallResolve ''alpine'', CallFetcher ''alpine'', CallDispatch alpineDesc,
                           CallFetch 1 alpineDesc, CallChildren alpineDesc]\<rparr>)" for m
    by (simp add: Pull_convert_def model_defs test_defs)
  have e: "S0\<lparr>world := emptyWorld\<lparr>images := Map.empty\<rparr>\<rparr> = S0" by (simp add: test_defs)
  note t1 = Pull_update_then_create[OF r d cv refl, of Map.empty]
  note t2 = Pull_update_then_create[OF r d cv refl, of "[''alpine'' \<mapsto> ?old]"]
  have reg: "isUpdate testDeps = regUpdate \<and> isCreate testDeps = regCreate" by (simp add: testDeps_def)
  have c1: "Pull testDeps ''alpine'' [] S0
     = Some (Inr ?img,
        S0\<lparr>world := emptyWorld\<lparr>stored := [alpineDesc], images := [''alpine'' \<mapsto> ?img]\<rparr>,
            calls := [CallResolve ''alpine'', CallFetcher ''alpine'', CallDispatch alpineDesc,
                      CallFetch 1 alpineDesc, CallChildren alpineDesc,
                      CallUpdate ?img [''target''], CallCreate ?img]\<rparr>)"
    using t1 reg e by (simp add: Pull_unpack_def model_defs test_defs)
  have c2: "Pull testDeps ''alpine'' [] (S0\<lparr>world := emptyWorld\<lparr>images := [''alpine'' \<mapsto> ?old]\<rparr>\<rparr>)
     = Some (Inr ?img,
        S0\<lparr>world := emptyWorld\<lparr>stored := [alpineDesc], images := [''alpine'' \<mapsto> ?img]\<rparr>,
            calls := [CallResolve ''alpine'', CallFetcher ''alpine'', CallDispatch alpineDesc,
                      CallFetch 1 alpineDesc, CallChildren alpineDesc,
                      CallUpdate ?img [''target'']]\<rparr>)"
    using t2 reg by (simp add: Pull_unpack_def model_defs test_defs)
  show ?thesis using r[of Map.empty] e c1 c2 by simp
qed

text \<open>
  Claim C3 as stated fails where the dispatch succeeds and \<open>Convert\<close> returns an
  error: \<open>Pull\<close> returns that error (lines 390-394) and calls neither the update nor
  the create.
\<close>

theorem Pull_update_then_create_counterexample:
  "Pull_resolve brokenConverterDeps ''legacy'' [WithSchema1Conversion] S0
     = (Inr ((defaultRemoteContext brokenConverterDeps)\<lparr>ConvertSchema1 := True\<rparr>,
             ''legacy'', legacyDesc, 1),
        S0\<lparr>calls := [CallResolve ''legacy'', CallFetcher ''legacy'']\<rparr>)
   \<and> dispatch brokenConverterDeps
        (Pull_handlers brokenConverterDeps
           ((defaultRemoteContext brokenConverterDeps)\<lparr>ConvertSchema1 := True\<rparr>) 1 legacyDesc)
        legacyDesc
        (S0\<lparr>calls := [CallResolve ''legacy'', CallFetcher ''legacy''],
            calls := calls (S0\<lparr>calls := [CallResolve ''legacy'', CallFetcher ''legacy'']\<rparr>)
                       @ [CallDispatch legacyDesc]\<rparr>)
     = Some (None,
          S0\<lparr>world := emptyWorld\<lparr>stored := [legacyDesc]\<rparr>,
             calls := [CallResolve ''legacy'', CallFetcher ''legacy'', CallDispatch legacyDesc,
                       CallConverter 1 legacyDesc]\<rparr>)
   \<and> Pull brokenConverterDeps ''legacy'' [WithSchema1Conversion] S0
     = Some (Inl (Errorf ''conversion failed''),
          S0\<lparr>world := emptyWorld\<lparr>stored := [legacyDesc]\<rparr>,
             calls := [CallResolve ''legacy'', CallFetcher ''legacy'', CallDispatch legacyDesc,
                       CallConverter 1 legacyDesc, CallConvert 1]\<rparr>)"
proof -
  let ?ctx = "(defaultRemoteContext brokenConverterDeps)\<lparr>ConvertSchema1 := True\<rparr>"
  let ?s1 = "S0\<lparr>calls := [CallResolve ''legacy'', CallFetcher ''legacy'']\<rparr>"
  let ?s2 = "S0\<lparr>world := emptyWorld\<lparr>stored := [legacyDesc]\<rparr>,
                calls := [CallResolve ''legacy'', CallFetcher ''legacy'', CallDispatch legacyDesc,
                          CallConverter 1 legacyDesc]\<rparr>"
  have r: "Pull_resolve brokenConverterDeps ''legacy'' [WithSchema1Conversion] S0
             = (Inr (?ctx, ''legacy'', legacyDesc, 1), ?s1)"
    by (simp add: Pull_resolve_def WithSchema1Conversion_def model_defs test_defs)
  have d: "dispatch brokenConverterDeps (Pull_handlers brokenConverterDeps ?ctx 1 legacyDesc) legacyDesc
             (?s1\<lparr>calls := calls ?s1 @ [CallDispatch legacyDesc]\<rparr>) = Some (None, ?s2)"
    by (simp add: Pull_handlers_def model_defs test_defs eval_nat_numeral)
  have p: "Pull brokenConverterDeps ''legacy'' [WithSchema1Conversion] S0
     = Some (Inl (Errorf ''conversion failed''), ?s2\<lparr>calls := calls ?s2 @ [CallConvert 1]\<rparr>)"
    using r d by (simp add: Pull_def Pull_convert_def model_defs test_defs)
  show ?thesis using r d p by simp
qed

subsection \<open>C4\<close>

text \<open>
  Claim C4, as amended. With the dispatcher, the handler chain and the fetch handler of
  the spec: when the resolved descriptor has the schema 1 media type, \<open>ConvertSchema1\<close>
  is false, the resolver gives a fetcher, and the base handlers return no error and no stop
  signal on the resolved descriptor, \<open>Pull\<close> returns the UnsupportedFormat error of
  the fetch handler. The calls made are the resolution, the fetcher and the dispatch: no
  blob is fetched into the content store, and no record is updated or created.
\<close>

theorem Pull_schema1_unsupported:
  assumes "dispatch c = (\<lambda>hs desc. Dispatch (Suc n) (Handlers hs) [desc])"
    and "Pull_resolve c ref opts s = (Inr (pullCtx, name, desc, f), s1)"
    and "MediaType desc = MediaTypeDockerSchema1Manifest"
    and "\<not> ConvertSchema1 pullCtx"
    and "Handlers (map liftH (BaseHandlers pullCtx)) desc
           (s1\<lparr>calls := calls s1 @ [CallDispatch desc]\<rparr>) = ((chs, None), s2)"
  shows "Pull c ref opts s = Some (Inl (ErrUnsupportedFormat (MediaType desc)), s2)
       \<and> calls s2 = calls s @ [CallResolve ref, CallFetcher name, CallDispatch desc]"
proof
  have hs: "Pull_handlers c pullCtx f desc =
          map liftH (BaseHandlers pullCtx) @ [FetchHandler c f, ChildrenHandler c]"
    using assms(4) by (simp add: Pull_handlers_def)
  have fh: "Handlers [FetchHandler c f, ChildrenHandler c] desc s2 =
          (([], Some (ErrUnsupportedFormat (MediaType desc))), s2)"
    using assms(3) by (simp add: FetchHandler_def)
  have "Handlers (Pull_handlers c pullCtx f desc) desc (s1\<lparr>calls := calls s1 @ [CallDispatch desc]\<rparr>)
        = (([], Some (ErrUnsupportedFormat (MediaType desc))), s2)"
    unfolding hs Handlers_append using assms(5) fh by simp
  then have "dispatch c (Pull_handlers c pullCtx f desc) desc
           (s1\<lparr>calls := calls s1 @ [CallDispatch desc]\<rparr>)
        = Some (Some (ErrUnsupportedFormat (MediaType desc)), s2)"
    using assms(1) by simp
  then show "Pull c ref opts s = Some (Inl (ErrUnsupportedFormat (MediaType desc)), s2)"
    using assms(2) by (simp add: Pull_def)
  show "calls s2 = calls s @ [CallResolve ref, CallFetcher name, CallDispatch desc]"
    using Handlers_liftH_calls[OF assms(5)] Pull_resolve_calls[OF assms(2)] by simp
qed

text \<open>The theorem at a run of the concrete instance.\<close>

theorem Pull_schema1_unsupported_witness:
  "dispatch testDeps = (\<lambda>hs desc. Dispatch (Suc 7) (Handlers hs) [desc])
   \<and> Pull_resolve testDeps ''legacy'' [WithImageHandler progressHandler] S0
     = (Inr ((defaultRemoteContext testDeps)\<lparr>BaseHandlers := [progressHandler]\<rparr>,
             ''legacy'', legacyDesc, 1),
        S0\<lparr>calls := [CallResolve ''legacy'', CallFetcher ''legacy'']\<rparr>)
   \<and> MediaType legacyDesc = MediaTypeDockerSchema1Manifest
   \<and> \<not> ConvertSchema1 ((defaultRemoteContext testDeps)\<lparr>BaseHandlers := [progressHandler]\<rparr>)
   \<and> Handlers (map liftH (BaseHandlers ((defaultRemoteContext testDeps)\<lparr>BaseHandlers := [progressHandler]\<rparr>)))
        legacyDesc
        (S0\<lparr>calls := [CallResolve ''legacy'', CallFetcher ''legacy''],
            calls := calls (S0\<lparr>calls := [CallResolve ''legacy'', CallFetcher ''legacy'']\<rparr>)
                       @ [CallDispatch legacyDesc]\<rparr>)
     = (([], None),
        S0\<lparr>calls := [CallResolve ''legacy'', CallFetcher ''legacy'', CallDispatch legacyDesc]\<rparr>)
   \<and> Pull testDeps ''legacy'' [WithImageHandler progressHandler] S0
     = Some (Inl (ErrUnsupportedFormat MediaTypeDockerSchema1Manifest),
             S0\<lparr>calls := [CallResolve ''legacy'', CallFetcher ''legacy'', CallDispatch legacyDesc]\<rparr>)"
proof -
  let ?ctx = "(defaultRemoteContext testDeps)\<lparr>BaseHandlers := [progressHandler]\<rparr>"
  let ?s1 = "S0\<lparr>calls := [CallResolve ''legacy'', CallFetcher ''legacy'']\<rparr>"
  let ?s2 = "S0\<lparr>calls := [CallResolve ''legacy'', CallFetcher ''legacy'', CallDispatch legacyDesc]\<rparr>"
  have d: "dispatch testDeps = (\<lambda>hs desc. Dispatch (Suc 7) (Handlers hs) [desc])"
    by (simp add: testDeps_def)
  have r: "Pull_resolve testDeps ''legacy'' [WithImageHandler progressHandler] S0
             = (Inr (?ctx, ''legacy'', legacyDesc, 1), ?s1)"
    by (simp add: Pull_resolve_def WithImageHandler_def model_defs test_defs)
  have m: "MediaType legacyDesc = MediaTypeDockerSchema1Manifest" by (simp add: test_defs)
  have cs: "\<not> ConvertSchema1 ?ctx" by (simp add: defaultRemoteContext_def)
  have b: "Handlers (map liftH (BaseHandlers ?ctx)) legacyDesc
             (?s1\<lparr>calls := calls ?s1 @ [CallDispatch legacyDesc]\<rparr>) = (([], None), ?s2)"
    by (simp add: model_defs test_defs)
  from Pull_schema1_unsupported[OF d r m cs b] m
  have c: "Pull testDeps ''legacy'' [WithImageHandler progressHandler] S0
     = Some (Inl (ErrUnsupportedFormat MediaTypeDockerSchema1Manifest), ?s2)"
    by simp
  show ?thesis using d r m cs b c by blast
qed

text \<open>
  Claim C4 as stated fails. A resolver that resolves to a schema 1 manifest and gives no
  fetcher makes \<open>Pull\<close> return the error of the fetcher (lines 368-371). A base
  handler that returns \<open>StopHandler\<close> on the resolved descriptor ends the chain before
  the fetch handler: the dispatch succeeds and \<open>Pull\<close> creates the image record. A
  base handler that fails makes \<open>Pull\<close> return its error.
\<close>

theorem Pull_schema1_unsupported_counterexample:
  "Pull_resolve testDeps ''legacy'' [WithImageHandler stoppingHandler] S0
      = (Inr ((defaultRemoteContext testDeps)\<lparr>BaseHandlers := [stoppingHandler]\<rparr>,
              ''legacy'', legacyDesc, 1),
         S0\<lparr>calls := [CallResolve ''legacy'', CallFetcher ''legacy'']\<rparr>)
   \<and> MediaType legacyDesc = MediaTypeDockerSchema1Manifest
   \<and> \<not> ConvertSchema1 ((defaultRemoteContext testDeps)\<lparr>BaseHandlers := [stoppingHandler]\<rparr>)
   \<and> Pull testDeps ''legacy'' [WithImageHandler stoppingHandler] S0
      = Some (Inr \<lparr>Name = ''legacy'', Target = legacyDesc\<rparr>,
          S0\<lparr>world := emptyWorld\<lparr>images := [''legacy'' \<mapsto> \<lparr>Name = ''legacy'', Target = legacyDesc\<rparr>]\<rparr>,
              calls := [CallResolve ''legacy'', CallFetcher ''legacy'', CallDispatch legacyDesc,
                        CallUpdate \<lparr>Name = ''legacy'', Target = legacyDesc\<rparr> [''target''],
                        CallCreate \<lparr>Name = ''legacy'', Target = legacyDesc\<rparr>]\<rparr>)
   \<and> \<not> ConvertSchema1 ((defaultRemoteContext testDeps)\<lparr>BaseHandlers := [failingHandler]\<rparr>)
   \<and> Pull testDeps ''legacy'' [WithImageHandler failingHandler] S0
      = Some (Inl (Errorf ''handler failed''),
          S0\<lparr>calls := [CallResolve ''legacy'', CallFetcher ''legacy'', CallDispatch legacyDesc]\<rparr>)
   \<and> Resolve legacyOfflineResolver ''legacy'' emptyWorld = (Inr (''offline'', legacyDesc), emptyWorld)
   \<and> \<not> ConvertSchema1 ((defaultRemoteContext testDeps)\<lparr>Resolver := legacyOfflineResolver\<rparr>)
   \<and> Pull testDeps ''legacy'' [WithResolver legacyOfflineResolver] S0
      = Some (Inl (Errorf ''no fetcher''), S0\<lparr>calls := [CallResolve ''legacy'', CallFetcher ''offline'']\<rparr>)"
proof -
  have a: "Resolve legacyOfflineResolver ''legacy'' emptyWorld = (Inr (''offline'', legacyDesc), emptyWorld)"
    by (simp add: test_defs)
  have m: "MediaType legacyDesc = MediaTypeDockerSchema1Manifest" by (simp add: test_defs)
  have n: "\<not> ConvertSchema1 ((defaultRemoteContext testDeps)\<lparr>Resolver := legacyOfflineResolver\<rparr>)"
       "\<not> ConvertSchema1 ((defaultRemoteContext testDeps)\<lparr>BaseHandlers := [stoppingHandler]\<rparr>)"
       "\<not> ConvertSchema1 ((defaultRemoteContext testDeps)\<lparr>BaseHandlers := [failingHandler]\<rparr>)"
    by (simp_all add: defaultRemoteContext_def)
  have p1: "Pull testDeps ''legacy'' [WithResolver legacyOfflineResolver] S0
      = Some (Inl (Errorf ''no fetcher''), S0\<lparr>calls := [CallResolve ''legacy'', CallFetcher ''offline'']\<rparr>)"
    by (simp add: Pull_def Pull_resolve_def WithResolver_def model_defs test_defs)
  have r: "Pull_resolve testDeps ''legacy'' [WithImageHandler stoppingHandler] S0
      = (Inr ((defaultRemoteContext testDeps)\<lparr>BaseHandlers := [stoppingHandler]\<rparr>,
              ''legacy'', legacyDesc, 1),
         S0\<lparr>calls := [CallResolve ''legacy'', CallFetcher ''legacy'']\<rparr>)"
    by (simp add: Pull_resolve_def WithImageHandler_def model_defs test_defs)
  have p2: "Pull testDeps ''legacy'' [WithImageHandler stoppingHandler] S0
      = Some (Inr \<lparr>Name = ''legacy'', Target = legacyDesc\<rparr>,
          S0\<lparr>world := emptyWorld\<lparr>images := [''legacy'' \<mapsto> \<lparr>Name = ''legacy'', Target = legacyDesc\<rparr>]\<rparr>,
              calls := [CallResolve ''legacy'', CallFetcher ''legacy'', CallDispatch legacyDesc,
                        CallUpdate \<lparr>Name = ''legacy'', Target = legacyDesc\<rparr> [''target''],
                        CallCreate \<lparr>Name = ''legacy'', Target = legacyDesc\<rparr>]\<rparr>)"
    using r
    by (simp add: Pull_def Pull_handlers_def Pull_convert_def Pull_upsert_def Pull_unpack_def
        model_defs test_defs eval_nat_numeral)
  have p3: "Pull testDeps ''legacy'' [WithImageHandler failingHandler] S0
      = Some (Inl (Errorf ''handler failed''),
          S0\<lparr>calls := [CallResolve ''legacy'', CallFetcher ''legacy'', CallDispatch legacyDesc]\<rparr>)"
    by (simp add: Pull_def Pull_resolve_def Pull_handlers_def WithImageHandler_def
        model_defs test_defs eval_nat_numeral)
  show ?thesis using a m n p1 r p2 p3 by blast
qed

subsection \<open>C5\<close>

text \<open>
  Claim C5. When the resolved descriptor has the schema 1 media type and
  \<open>ConvertSchema1\<close> is true, the handlers that \<open>Pull\<close> gives to the dispatch are
  the base handlers followed by the schema 1 converter and nothing else. When that
  dispatch succeeds and the converter returns a descriptor, the record that \<open>Pull\<close>
  gives to the update, and to the create if there is one, has the resolved name and the
  converted descriptor as its target.
\<close>

theorem Pull_schema1_conversion:
  assumes "run (applyOpts opts (defaultRemoteContext c)) s = (Inr pullCtx, s0)"
    and "call (CallResolve ref) (Resolve (Resolver pullCtx) ref) s0 = (Inr (name, desc), s1)"
    and "MediaType desc = MediaTypeDockerSchema1Manifest"
    and "ConvertSchema1 pullCtx"
  shows "(\<forall>f. Pull_handlers c pullCtx f desc = map liftH (BaseHandlers pullCtx) @ [schema1Converter c f])
       \<and> (\<forall>f s1' s2 converted w3.
            call (CallFetcher name) (Fetcher (Resolver pullCtx) name) s1 = (Inr f, s1')
            \<and> dispatch c (map liftH (BaseHandlers pullCtx) @ [schema1Converter c f]) desc
               (s1'\<lparr>calls := calls s1' @ [CallDispatch desc]\<rparr>) = Some (None, s2)
            \<and> converterConvert c f (world s2) = (Inr converted, w3) \<longrightarrow>
            Pull c ref opts s =
              (case Pull_upsert c \<lparr>Name = name, Target = converted\<rparr>
                      (s2\<lparr>calls := calls s2 @ [CallConvert f], world := w3\<rparr>) of
                 (Inl err, s4) \<Rightarrow> Some (Inl err, s4)
               | (Inr imgrec, s4) \<Rightarrow> Some (Pull_unpack c pullCtx imgrec s4))
            \<and> (\<exists>rest.
                  calls (snd (Pull_upsert c \<lparr>Name = name, Target = converted\<rparr>
                                (s2\<lparr>calls := calls s2 @ [CallConvert f], world := w3\<rparr>)))
                    = calls s2 @ CallConvert f
                        # CallUpdate \<lparr>Name = name, Target = converted\<rparr> [''target''] # rest
                  \<and> (rest = [] \<or> rest = [CallCreate \<lparr>Name = name, Target = converted\<rparr>])))"
proof (intro conjI allI impI)
  show ch: "Pull_handlers c pullCtx f desc = map liftH (BaseHandlers pullCtx) @ [schema1Converter c f]" for f
    using assms by (simp add: Pull_handlers_def)
  fix f s1' s2 converted w3
  assume a: "call (CallFetcher name) (Fetcher (Resolver pullCtx) name) s1 = (Inr f, s1')
            \<and> dispatch c (map liftH (BaseHandlers pullCtx) @ [schema1Converter c f]) desc
               (s1'\<lparr>calls := calls s1' @ [CallDispatch desc]\<rparr>) = Some (None, s2)
            \<and> converterConvert c f (world s2) = (Inr converted, w3)"
  let ?s3 = "s2\<lparr>calls := calls s2 @ [CallConvert f], world := w3\<rparr>"
  have r: "Pull_resolve c ref opts s = (Inr (pullCtx, name, desc, f), s1')"
    using assms(1,2) a by (simp add: Pull_resolve_def)
  have cv: "Pull_convert c pullCtx f desc s2 = (Inr converted, ?s3)"
    using assms a by (simp add: Pull_convert_def call_def run_def)
  show "Pull c ref opts s =
              (case Pull_upsert c \<lparr>Name = name, Target = converted\<rparr> ?s3 of
                 (Inl err, s4) \<Rightarrow> Some (Inl err, s4)
               | (Inr imgrec, s4) \<Rightarrow> Some (Pull_unpack c pullCtx imgrec s4))"
    using r a ch cv by (simp add: Pull_def split: prod.splits sum.splits)
  show "\<exists>rest. calls (snd (Pull_upsert c \<lparr>Name = name, Target = converted\<rparr> ?s3))
                    = calls s2 @ CallConvert f
                        # CallUpdate \<lparr>Name = name, Target = converted\<rparr> [''target''] # rest
                  \<and> (rest = [] \<or> rest = [CallCreate \<lparr>Name = name, Target = converted\<rparr>])"
    using Pull_upsert_calls[of c "\<lparr>Name = name, Target = converted\<rparr>" ?s3] by simp
qed

text \<open>The theorem at a run of the concrete instance.\<close>

theorem Pull_schema1_conversion_witness:
  "run (applyOpts [WithSchema1Conversion] (defaultRemoteContext testDeps)) S0
     = (Inr ((defaultRemoteContext testDeps)\<lparr>ConvertSchema1 := True\<rparr>), S0)
   \<and> call (CallResolve ''legacy'')
        (Resolve (Resolver ((defaultRemoteContext testDeps)\<lparr>ConvertSchema1 := True\<rparr>)) ''legacy'') S0
     = (Inr (''legacy'', legacyDesc), S0\<lparr>calls := [CallResolve ''legacy'']\<rparr>)
   \<and> MediaType legacyDesc = MediaTypeDockerSchema1Manifest
   \<and> ConvertSchema1 ((defaultRemoteContext testDeps)\<lparr>ConvertSchema1 := True\<rparr>)
   \<and> Pull_handlers testDeps ((defaultRemoteContext testDeps)\<lparr>ConvertSchema1 := True\<rparr>) 1 legacyDesc
       = [schema1Converter testDeps 1]
   \<and> Pull testDeps ''legacy'' [WithSchema1Conversion] S0
     = Some (Inr \<lparr>Name = ''legacy'', Target = convertedDesc\<rparr>,
        S0\<lparr>world := emptyWorld\<lparr>stored := [legacyDesc],
                                   images := [''legacy'' \<mapsto> \<lparr>Name = ''legacy'', Target = convertedDesc\<rparr>]\<rparr>,
            calls := [CallResolve ''legacy'', CallFetcher ''legacy'', CallDispatch legacyDesc,
                      CallConverter 1 legacyDesc, CallConvert 1,
                      CallUpdate \<lparr>Name = ''legacy'', Target = convertedDesc\<rparr> [''target''],
                      CallCreate \<lparr>Name = ''legacy'', Target = convertedDesc\<rparr>]\<rparr>)"
proof -
  let ?ctx = "(defaultRemoteContext testDeps)\<lparr>ConvertSchema1 := True\<rparr>"
  let ?s1 = "S0\<lparr>calls := [CallResolve ''legacy'']\<rparr>"
  let ?s1' = "S0\<lparr>calls := [CallResolve ''legacy'', CallFetcher ''legacy'']\<rparr>"
  let ?s2 = "S0\<lparr>world := emptyWorld\<lparr>stored := [legacyDesc]\<rparr>,
                calls := [CallResolve ''legacy'', CallFetcher ''legacy'', CallDispatch legacyDesc,
                          CallConverter 1 legacyDesc]\<rparr>"
  have o: "run (applyOpts [WithSchema1Conversion] (defaultRemoteContext testDeps)) S0 = (Inr ?ctx, S0)"
    by (simp add: WithSchema1Conversion_def run_def)
  have r: "call (CallResolve ''legacy'') (Resolve (Resolver ?ctx) ''legacy'') S0
     = (Inr (''legacy'', legacyDesc), ?s1)"
    by (simp add: model_defs test_defs)
  have m: "MediaType legacyDesc = MediaTypeDockerSchema1Manifest" by (simp add: test_defs)
  have cs: "ConvertSchema1 ?ctx" by simp
  note t = Pull_schema1_conversion[OF o r m cs]
  have b: "BaseHandlers ?ctx = []" by (simp add: defaultRemoteContext_def)
  have f: "call (CallFetcher ''legacy'') (Fetcher (Resolver ?ctx) ''legacy'') ?s1 = (Inr 1, ?s1')"
    by (simp add: model_defs test_defs)
  have d: "dispatch testDeps (map liftH (BaseHandlers ?ctx) @ [schema1Converter testDeps 1]) legacyDesc
             (?s1'\<lparr>calls := calls ?s1' @ [CallDispatch legacyDesc]\<rparr>) = Some (None, ?s2)"
    by (simp add: b) (simp add: model_defs test_defs eval_nat_numeral)
  have cv: "converterConvert testDeps 1 (world ?s2) = (Inr convertedDesc, world ?s2)"
    by (simp add: test_defs)
  from t have hs: "Pull_handlers testDeps ?ctx 1 legacyDesc = [schema1Converter testDeps 1]"
    by (simp add: b)
  from t f d cv have "Pull testDeps ''legacy'' [WithSchema1Conversion] S0 =
              (case Pull_upsert testDeps \<lparr>Name = ''legacy'', Target = convertedDesc\<rparr>
                      (?s2\<lparr>calls := calls ?s2 @ [CallConvert 1], world := world ?s2\<rparr>) of
                 (Inl err, s4) \<Rightarrow> Some (Inl err, s4)
               | (Inr imgrec, s4) \<Rightarrow> Some (Pull_unpack testDeps ?ctx imgrec s4))"
    by blast
  then have c: "Pull testDeps ''legacy'' [WithSchema1Conversion] S0
     = Some (Inr \<lparr>Name = ''legacy'', Target = convertedDesc\<rparr>,
        S0\<lparr>world := emptyWorld\<lparr>stored := [legacyDesc],
                                   images := [''legacy'' \<mapsto> \<lparr>Name = ''legacy'', Target = convertedDesc\<rparr>]\<rparr>,
            calls := [CallResolve ''legacy'', CallFetcher ''legacy'', CallDispatch legacyDesc,
                      CallConverter 1 legacyDesc, CallConvert 1,
                      CallUpdate \<lparr>Name = ''legacy'', Target = convertedDesc\<rparr> [''target''],
                      CallCreate \<lparr>Name = ''legacy'', Target = convertedDesc\<rparr>]\<rparr>)"
    by (simp add: Pull_upsert_def Pull_unpack_def model_defs test_defs)
  show ?thesis using o r m cs hs c by blast
qed

subsection \<open>C6\<close>

text \<open>
  Claim C6. If the resolution fails, \<open>Pull\<close> returns its error in the state that the
  resolution left, and the only call made is the resolution. If the dispatch returns a
  hard error, \<open>Pull\<close> returns that error in the state that the dispatch left: the
  calls before the dispatch are the resolution and the fetcher, and \<open>Pull\<close> makes no
  call after it. No update or create of an image record is among them.
\<close>

theorem Pull_hard_error_no_record:
  "(\<forall>pullCtx s0 e s1.
       run (applyOpts opts (defaultRemoteContext c)) s = (Inr pullCtx, s0)
       \<and> call (CallResolve ref) (Resolve (Resolver pullCtx) ref) s0 = (Inl e, s1)
       \<longrightarrow> Pull c ref opts s = Some (Inl e, s1) \<and> calls s1 = calls s @ [CallResolve ref])
   \<and> (\<forall>pullCtx name desc f s1 e s2.
       Pull_resolve c ref opts s = (Inr (pullCtx, name, desc, f), s1)
       \<and> dispatch c (Pull_handlers c pullCtx f desc) desc
            (s1\<lparr>calls := calls s1 @ [CallDispatch desc]\<rparr>) = Some (Some e, s2)
       \<longrightarrow> Pull c ref opts s = Some (Inl e, s2)
           \<and> calls s1 = calls s @ [CallResolve ref, CallFetcher name])"
proof (intro conjI allI impI)
  fix pullCtx s0 e s1
  assume a: "run (applyOpts opts (defaultRemoteContext c)) s = (Inr pullCtx, s0)
       \<and> call (CallResolve ref) (Resolve (Resolver pullCtx) ref) s0 = (Inl e, s1)"
  then show "Pull c ref opts s = Some (Inl e, s1)"
    by (simp add: Pull_def Pull_resolve_def)
  from a show "calls s1 = calls s @ [CallResolve ref]"
    by (auto simp: run_def call_def split: prod.splits)
next
  fix pullCtx name desc f s1 e s2
  assume a: "Pull_resolve c ref opts s = (Inr (pullCtx, name, desc, f), s1)
       \<and> dispatch c (Pull_handlers c pullCtx f desc) desc
            (s1\<lparr>calls := calls s1 @ [CallDispatch desc]\<rparr>) = Some (Some e, s2)"
  then show "Pull c ref opts s = Some (Inl e, s2)" by (simp add: Pull_def)
  from a show "calls s1 = calls s @ [CallResolve ref, CallFetcher name]"
    using Pull_resolve_calls by blast
qed

text \<open>The theorem at a run of the concrete instance.\<close>

theorem Pull_hard_error_no_record_witness:
  "run (applyOpts [] (defaultRemoteContext testDeps)) S0 = (Inr (defaultRemoteContext testDeps), S0)
   \<and> call (CallResolve ''unknown'') (Resolve (Resolver (defaultRemoteContext testDeps)) ''unknown'') S0
        = (Inl (Errorf ''resolve failed''), S0\<lparr>calls := [CallResolve ''unknown'']\<rparr>)
   \<and> Pull testDeps ''unknown'' [] S0
        = Some (Inl (Errorf ''resolve failed''), S0\<lparr>calls := [CallResolve ''unknown'']\<rparr>)
   \<and> Pull_resolve testDeps ''alpine'' [WithImageHandler failingHandler] S0
        = (Inr ((defaultRemoteContext testDeps)\<lparr>BaseHandlers := [failingHandler]\<rparr>,
                ''alpine'', alpineDesc, 1),
           S0\<lparr>calls := [CallResolve ''alpine'', CallFetcher ''alpine'']\<rparr>)
   \<and> dispatch testDeps
        (Pull_handlers testDeps ((defaultRemoteContext testDeps)\<lparr>BaseHandlers := [failingHandler]\<rparr>)
           1 alpineDesc) alpineDesc
        (S0\<lparr>calls := [CallResolve ''alpine'', CallFetcher ''alpine''],
            calls := calls (S0\<lparr>calls := [CallResolve ''alpine'', CallFetcher ''alpine'']\<rparr>)
                       @ [CallDispatch alpineDesc]\<rparr>)
        = Some (Some (Errorf ''handler failed''),
                S0\<lparr>calls := [CallResolve ''alpine'', CallFetcher ''alpine'', CallDispatch alpineDesc]\<rparr>)
   \<and> Pull testDeps ''alpine'' [WithImageHandler failingHandler] S0
        = Some (Inl (Errorf ''handler failed''),
                S0\<lparr>calls := [CallResolve ''alpine'', CallFetcher ''alpine'', CallDispatch alpineDesc]\<rparr>)"
proof -
  let ?ctx = "(defaultRemoteContext testDeps)\<lparr>BaseHandlers := [failingHandler]\<rparr>"
  have a1: "run (applyOpts [] (defaultRemoteContext testDeps)) S0 = (Inr (defaultRemoteContext testDeps), S0)"
    by (simp add: run_def)
  have a2: "call (CallResolve ''unknown'') (Resolve (Resolver (defaultRemoteContext testDeps)) ''unknown'') S0
        = (Inl (Errorf ''resolve failed''), S0\<lparr>calls := [CallResolve ''unknown'']\<rparr>)"
    by (simp add: model_defs test_defs)
  have b1: "Pull_resolve testDeps ''alpine'' [WithImageHandler failingHandler] S0
        = (Inr (?ctx, ''alpine'', alpineDesc, 1),
           S0\<lparr>calls := [CallResolve ''alpine'', CallFetcher ''alpine'']\<rparr>)"
    by (simp add: Pull_resolve_def WithImageHandler_def model_defs test_defs)
  have b2: "dispatch testDeps (Pull_handlers testDeps ?ctx 1 alpineDesc) alpineDesc
        (S0\<lparr>calls := [CallResolve ''alpine'', CallFetcher ''alpine''],
            calls := calls (S0\<lparr>calls := [CallResolve ''alpine'', CallFetcher ''alpine'']\<rparr>)
                       @ [CallDispatch alpineDesc]\<rparr>)
        = Some (Some (Errorf ''handler failed''),
                S0\<lparr>calls := [CallResolve ''alpine'', CallFetcher ''alpine'', CallDispatch alpineDesc]\<rparr>)"
    by (simp add: Pull_handlers_def model_defs test_defs eval_nat_numeral)
  note t1 = Pull_hard_error_no_record[of "[]" testDeps S0 "''unknown''"]
  note t2 = Pull_hard_error_no_record[of "[WithImageHandler failingHandler]" testDeps S0 "''alpine''"]
  have c1: "Pull testDeps ''unknown'' [] S0
        = Some (Inl (Errorf ''resolve failed''), S0\<lparr>calls := [CallResolve ''unknown'']\<rparr>)"
    using t1 a1 a2 by blast
  have c2: "Pull testDeps ''alpine'' [WithImageHandler failingHandler] S0
        = Some (Inl (Errorf ''handler failed''),
                S0\<lparr>calls := [CallResolve ''alpine'', CallFetcher ''alpine'', CallDispatch alpineDesc]\<rparr>)"
    using t2 b1 b2 by blast
  show ?thesis using a1 a2 b1 b2 c1 c2 by simp
qed

subsection \<open>C7\<close>

text \<open>
  Claim C7. If the dispatch of \<open>Push\<close> returns a hard error, \<open>Push\<close> returns
  that error in the state that the dispatch left. If the dispatch succeeds and \<open>Push\<close>
  returns an error, the error is the one that the upload handler returned on some stack
  entry \<open>i\<close>, after the uploads of the entries above \<open>i\<close> and nothing else; this
  call is the last one, so that the entries below \<open>i\<close> are not uploaded. If \<open>Push\<close>
  returns no error, the upload handler was called on every entry and returned no error on
  it. The result carries the error and nothing else.
\<close>

theorem Push_returns_first_error:
  assumes "Push_pusher c ref opts s = (Inr (pushCtx, p), s1)"
  shows "(\<forall>e s2. dispatch c (Push_handlers c pushCtx p) desc
                    (s1\<lparr>manifestStack := [], calls := calls s1 @ [CallDispatch desc]\<rparr>) = Some (Some e, s2)
            \<longrightarrow> Push c ref desc opts s = Some (Some e, s2))
    \<and> (\<forall>s2. dispatch c (Push_handlers c pushCtx p) desc
                    (s1\<lparr>manifestStack := [], calls := calls s1 @ [CallDispatch desc]\<rparr>) = Some (None, s2)
            \<longrightarrow> (\<exists>r s'. Push c ref desc opts s = Some (r, s') \<and>
                  (case r of
                     Some e \<Rightarrow>
                       (\<exists>i<length (manifestStack s2). \<exists>si ch.
                          pushHandler c p (manifestStack s2 ! i) si = ((ch, Some e), s')
                          \<and> calls si = calls s2 @ map (CallPush p) (rev (drop (Suc i) (manifestStack s2)))
                          \<and> calls s' = calls si @ [CallPush p (manifestStack s2 ! i)])
                   | None \<Rightarrow>
                       calls s' = calls s2 @ map (CallPush p) (rev (manifestStack s2))
                       \<and> (\<forall>i<length (manifestStack s2). \<exists>si ch s''.
                            pushHandler c p (manifestStack s2 ! i) si = ((ch, None), s'')
                            \<and> calls si = calls s2 @ map (CallPush p) (rev (drop (Suc i) (manifestStack s2)))))))"
proof (intro conjI allI impI)
  fix e s2
  assume "dispatch c (Push_handlers c pushCtx p) desc
            (s1\<lparr>manifestStack := [], calls := calls s1 @ [CallDispatch desc]\<rparr>) = Some (Some e, s2)"
  with assms show "Push c ref desc opts s = Some (Some e, s2)" by (simp add: Push_def)
next
  fix s2
  assume d: "dispatch c (Push_handlers c pushCtx p) desc
            (s1\<lparr>manifestStack := [], calls := calls s1 @ [CallDispatch desc]\<rparr>) = Some (None, s2)"
  let ?ms = "manifestStack s2"
  obtain r s' where res: "Push_loop c p (length ?ms) s2 = (r, s')" by (metis prod.exhaust)
  have push: "Push c ref desc opts s = Some (r, s')" using assms d res by (simp add: Push_def)
  note tr = Push_loop_trace[where n="length ?ms" and s=s2 and c=c and p=p]
  have "case r of
          Some e \<Rightarrow>
            (\<exists>i<length ?ms. \<exists>si ch.
               pushHandler c p (?ms ! i) si = ((ch, Some e), s')
               \<and> calls si = calls s2 @ map (CallPush p) (rev (drop (Suc i) ?ms))
               \<and> calls s' = calls si @ [CallPush p (?ms ! i)])
        | None \<Rightarrow>
            calls s' = calls s2 @ map (CallPush p) (rev ?ms)
            \<and> (\<forall>i<length ?ms. \<exists>si ch s''.
                 pushHandler c p (?ms ! i) si = ((ch, None), s'')
                 \<and> calls si = calls s2 @ map (CallPush p) (rev (drop (Suc i) ?ms)))"
  proof (cases r)
    case None
    then show ?thesis using tr res by simp
  next
    case (Some e)
    with tr res obtain i si ch where i: "i < length ?ms"
      and hi: "pushHandler c p (?ms ! i) si = ((ch, Some e), s')"
      and ci: "calls si = calls s2 @ map (CallPush p) (rev (drop (Suc i) ?ms))"
      by auto
    from pushHandler_effect[OF hi] have cl: "calls s' = calls si @ [CallPush p (?ms ! i)]" by simp
    have "\<exists>i<length ?ms. \<exists>si ch.
               pushHandler c p (?ms ! i) si = ((ch, Some e), s')
               \<and> calls si = calls s2 @ map (CallPush p) (rev (drop (Suc i) ?ms))
               \<and> calls s' = calls si @ [CallPush p (?ms ! i)]"
      using i hi ci cl by blast
    then show ?thesis using Some by simp
  qed
  with push show "\<exists>r s'. Push c ref desc opts s = Some (r, s') \<and>
                  (case r of
                     Some e \<Rightarrow>
                       (\<exists>i<length ?ms. \<exists>si ch.
                          pushHandler c p (?ms ! i) si = ((ch, Some e), s')
                          \<and> calls si = calls s2 @ map (CallPush p) (rev (drop (Suc i) ?ms))
                          \<and> calls s' = calls si @ [CallPush p (?ms ! i)])
                   | None \<Rightarrow>
                       calls s' = calls s2 @ map (CallPush p) (rev ?ms)
                       \<and> (\<forall>i<length ?ms. \<exists>si ch s''.
                            pushHandler c p (?ms ! i) si = ((ch, None), s'')
                            \<and> calls si = calls s2 @ map (CallPush p) (rev (drop (Suc i) ?ms))))"
    by blast
qed

text \<open>The theorem at a run of the concrete instance.\<close>

theorem Push_returns_first_error_witness:
  "Push_pusher testDeps ''bundle'' [WithImageHandler failingHandler] S0
     = (Inr ((defaultRemoteContext testDeps)\<lparr>BaseHandlers := [failingHandler]\<rparr>, 2),
        S0\<lparr>calls := [CallPusher ''bundle'']\<rparr>)
   \<and> Push testDeps ''bundle'' bundleDesc [WithImageHandler failingHandler] S0
     = Some (Some (Errorf ''handler failed''),
             S0\<lparr>calls := [CallPusher ''bundle'', CallDispatch bundleDesc]\<rparr>)
   \<and> Push_pusher testDeps ''bundle'' [] (S0\<lparr>world := emptyWorld\<lparr>refused := [''m2'']\<rparr>\<rparr>)
     = (Inr (defaultRemoteContext testDeps, 2),
        S0\<lparr>world := emptyWorld\<lparr>refused := [''m2'']\<rparr>, calls := [CallPusher ''bundle'']\<rparr>)
   \<and> (\<exists>s'. Push testDeps ''bundle'' bundleDesc [] (S0\<lparr>world := emptyWorld\<lparr>refused := [''m2'']\<rparr>\<rparr>)
            = Some (Some (Errorf ''upload failed''), s')
          \<and> calls s' = [CallPusher ''bundle'', CallDispatch bundleDesc, CallChildren bundleDesc,
                        CallPush 2 bundleDesc, CallChildren m1Desc, CallChildren m2Desc,
                        CallPush 2 m2Desc]
          \<and> manifestStack s' = [m1Desc, m2Desc])"
proof -
  let ?ctxf = "(defaultRemoteContext testDeps)\<lparr>BaseHandlers := [failingHandler]\<rparr>"
  let ?ctx = "defaultRemoteContext testDeps"
  let ?w = "emptyWorld\<lparr>refused := [''m2'']\<rparr>"
  let ?s1f = "S0\<lparr>calls := [CallPusher ''bundle'']\<rparr>"
  let ?s1 = "S0\<lparr>world := ?w, calls := [CallPusher ''bundle'']\<rparr>"
  let ?s2 = "S0\<lparr>world := ?w\<lparr>uploaded := [bundleDesc]\<rparr>,
                calls := [CallPusher ''bundle'', CallDispatch bundleDesc, CallChildren bundleDesc,
                          CallPush 2 bundleDesc, CallChildren m1Desc, CallChildren m2Desc],
                manifestStack := [m1Desc, m2Desc]\<rparr>"
  have pf: "Push_pusher testDeps ''bundle'' [WithImageHandler failingHandler] S0 = (Inr (?ctxf, 2), ?s1f)"
    by (simp add: Push_pusher_def WithImageHandler_def model_defs test_defs)
  have df: "dispatch testDeps (Push_handlers testDeps ?ctxf 2) bundleDesc
              (?s1f\<lparr>manifestStack := [], calls := calls ?s1f @ [CallDispatch bundleDesc]\<rparr>)
            = Some (Some (Errorf ''handler failed''),
                    S0\<lparr>calls := [CallPusher ''bundle'', CallDispatch bundleDesc]\<rparr>)"
    by (simp add: Push_handlers_def model_defs test_defs eval_nat_numeral)
  have p: "Push_pusher testDeps ''bundle'' [] (S0\<lparr>world := ?w\<rparr>) = (Inr (?ctx, 2), ?s1)"
    by (simp add: Push_pusher_def model_defs test_defs)
  have d: "dispatch testDeps (Push_handlers testDeps ?ctx 2) bundleDesc
              (?s1\<lparr>manifestStack := [], calls := calls ?s1 @ [CallDispatch bundleDesc]\<rparr>)
            = Some (None, ?s2)"
    by (simp add: Push_handlers_def model_defs test_defs eval_nat_numeral)
  note tf = Push_returns_first_error[OF pf, of bundleDesc]
  note t = Push_returns_first_error[OF p, of bundleDesc]
  have cf: "Push testDeps ''bundle'' bundleDesc [WithImageHandler failingHandler] S0
     = Some (Some (Errorf ''handler failed''),
             S0\<lparr>calls := [CallPusher ''bundle'', CallDispatch bundleDesc]\<rparr>)"
    using tf df by blast
  have ev: "Push testDeps ''bundle'' bundleDesc [] (S0\<lparr>world := ?w\<rparr>)
     = Some (Some (Errorf ''upload failed''), ?s2\<lparr>calls := calls ?s2 @ [CallPush 2 m2Desc]\<rparr>)"
    using p d by (simp add: Push_def model_defs test_defs eval_nat_numeral)
  have c: "\<exists>s'. Push testDeps ''bundle'' bundleDesc [] (S0\<lparr>world := ?w\<rparr>)
            = Some (Some (Errorf ''upload failed''), s')
          \<and> calls s' = [CallPusher ''bundle'', CallDispatch bundleDesc, CallChildren bundleDesc,
                        CallPush 2 bundleDesc, CallChildren m1Desc, CallChildren m2Desc,
                        CallPush 2 m2Desc]
          \<and> manifestStack s' = [m1Desc, m2Desc]"
    using ev by simp
  show ?thesis using pf cf p c t by blast
qed

subsection \<open>C8\<close>

text \<open>
  Claim C8. After the image record is upserted: when \<open>Unpack\<close> is true, \<open>Pull\<close>
  calls the unpack of the image with the snapshotter name of the context, and returns the
  error of the unpack if there is one, the image otherwise; when \<open>Unpack\<close> is false,
  \<open>Pull\<close> returns the image in the state that the upsert left, without a call of the
  unpack. And when the options leave \<open>Unpack\<close> false, the unpack is called in no
  run of \<open>Pull\<close>: replacing it by any other function changes nothing.
\<close>

theorem Pull_unpack_when_asked:
  "(\<forall>pullCtx name desc f s1 s2 desc' s3 imgrec s4.
      Pull_resolve c ref opts s = (Inr (pullCtx, name, desc, f), s1)
      \<and> dispatch c (Pull_handlers c pullCtx f desc) desc
           (s1\<lparr>calls := calls s1 @ [CallDispatch desc]\<rparr>) = Some (None, s2)
      \<and> Pull_convert c pullCtx f desc s2 = (Inr desc', s3)
      \<and> Pull_upsert c \<lparr>Name = name, Target = desc'\<rparr> s3 = (Inr imgrec, s4)
      \<longrightarrow>
        (Unpack pullCtx \<longrightarrow>
           (\<forall>e w. imageUnpack c imgrec (Snapshotter pullCtx) (world s4) = (Some e, w) \<longrightarrow>
              Pull c ref opts s =
                Some (Inl e, s4\<lparr>calls := calls s4 @ [CallUnpack imgrec (Snapshotter pullCtx)], world := w\<rparr>))
         \<and> (\<forall>w. imageUnpack c imgrec (Snapshotter pullCtx) (world s4) = (None, w) \<longrightarrow>
              Pull c ref opts s =
                Some (Inr imgrec, s4\<lparr>calls := calls s4 @ [CallUnpack imgrec (Snapshotter pullCtx)], world := w\<rparr>)))
       \<and> (\<not> Unpack pullCtx \<longrightarrow> Pull c ref opts s = Some (Inr imgrec, s4)))
   \<and> (\<forall>pullCtx w u.
        applyOpts opts (defaultRemoteContext c) (world s) = (Inr pullCtx, w) \<and> \<not> Unpack pullCtx
        \<longrightarrow> Pull (c\<lparr>imageUnpack := u\<rparr>) ref opts s = Pull c ref opts s)"
proof (intro conjI allI impI)
  fix pullCtx name desc f s1 s2 desc' s3 imgrec s4
  assume a: "Pull_resolve c ref opts s = (Inr (pullCtx, name, desc, f), s1)
      \<and> dispatch c (Pull_handlers c pullCtx f desc) desc
           (s1\<lparr>calls := calls s1 @ [CallDispatch desc]\<rparr>) = Some (None, s2)
      \<and> Pull_convert c pullCtx f desc s2 = (Inr desc', s3)
      \<and> Pull_upsert c \<lparr>Name = name, Target = desc'\<rparr> s3 = (Inr imgrec, s4)"
  { fix e w
    assume "Unpack pullCtx" "imageUnpack c imgrec (Snapshotter pullCtx) (world s4) = (Some e, w)"
    with a show "Pull c ref opts s =
                Some (Inl e, s4\<lparr>calls := calls s4 @ [CallUnpack imgrec (Snapshotter pullCtx)], world := w\<rparr>)"
      by (simp add: Pull_def Pull_unpack_def call_def run_def) }
  { fix w
    assume "Unpack pullCtx" "imageUnpack c imgrec (Snapshotter pullCtx) (world s4) = (None, w)"
    with a show "Pull c ref opts s =
                Some (Inr imgrec, s4\<lparr>calls := calls s4 @ [CallUnpack imgrec (Snapshotter pullCtx)], world := w\<rparr>)"
      by (simp add: Pull_def Pull_unpack_def call_def run_def) }
  { assume "\<not> Unpack pullCtx"
    with a show "Pull c ref opts s = Some (Inr imgrec, s4)"
      by (simp add: Pull_def Pull_unpack_def) }
next
  fix pullCtx w u
  assume a: "applyOpts opts (defaultRemoteContext c) (world s) = (Inr pullCtx, w) \<and> \<not> Unpack pullCtx"
  have ctx: "pullCtx' = pullCtx"
    if "Pull_resolve c ref opts s = (Inr (pullCtx', name, desc, f), s1)" for pullCtx' name desc f s1
    using Pull_resolve_context[OF that] a by simp
  have un: "Pull_unpack (c\<lparr>imageUnpack := u\<rparr>) pullCtx imgrec s4 = Pull_unpack c pullCtx imgrec s4" for imgrec s4
    using a by (simp add: Pull_unpack_def)
  show "Pull (c\<lparr>imageUnpack := u\<rparr>) ref opts s = Pull c ref opts s"
    unfolding Pull_def imageUnpack_irrelevant
    by (auto split: prod.splits sum.splits option.splits dest!: ctx simp: un)
qed

text \<open>The theorem at a run of the concrete instance.\<close>

theorem Pull_unpack_when_asked_witness:
  "Pull_resolve testDeps ''alpine'' [WithPullUnpack, WithPullSnapshotter ''overlayfs''] S0
     = (Inr ((defaultRemoteContext testDeps)\<lparr>Unpack := True, Snapshotter := ''overlayfs''\<rparr>,
             ''alpine'', alpineDesc, 1),
        S0\<lparr>calls := [CallResolve ''alpine'', CallFetcher ''alpine'']\<rparr>)
   \<and> Pull_upsert testDeps \<lparr>Name = ''alpine'', Target = alpineDesc\<rparr>
        (S0\<lparr>world := emptyWorld\<lparr>stored := [alpineDesc]\<rparr>,
            calls := [CallResolve ''alpine'', CallFetcher ''alpine'', CallDispatch alpineDesc,
                      CallFetch 1 alpineDesc, CallChildren alpineDesc]\<rparr>)
     = (Inr \<lparr>Name = ''alpine'', Target = alpineDesc\<rparr>,
        S0\<lparr>world := emptyWorld\<lparr>stored := [alpineDesc],
                                   images := [''alpine'' \<mapsto> \<lparr>Name = ''alpine'', Target = alpineDesc\<rparr>]\<rparr>,
            calls := [CallResolve ''alpine'', CallFetcher ''alpine'', CallDispatch alpineDesc,
                      CallFetch 1 alpineDesc, CallChildren alpineDesc,
                      CallUpdate \<lparr>Name = ''alpine'', Target = alpineDesc\<rparr> [''target''],
                      CallCreate \<lparr>Name = ''alpine'', Target = alpineDesc\<rparr>]\<rparr>)
   \<and> Pull testDeps ''alpine'' [WithPullUnpack, WithPullSnapshotter ''overlayfs''] S0
     = Some (Inr \<lparr>Name = ''alpine'', Target = alpineDesc\<rparr>,
        S0\<lparr>world := emptyWorld\<lparr>stored := [alpineDesc],
                                   images := [''alpine'' \<mapsto> \<lparr>Name = ''alpine'', Target = alpineDesc\<rparr>],
                                   unpacked := [(''alpine'', ''overlayfs'')]\<rparr>,
            calls := [CallResolve ''alpine'', CallFetcher ''alpine'', CallDispatch alpineDesc,
                      CallFetch 1 alpineDesc, CallChildren alpineDesc,
                      CallUpdate \<lparr>Name = ''alpine'', Target = alpineDesc\<rparr> [''target''],
                      CallCreate \<lparr>Name = ''alpine'', Target = alpineDesc\<rparr>,
                      CallUnpack \<lparr>Name = ''alpine'', Target = alpineDesc\<rparr> ''overlayfs'']\<rparr>)
   \<and> Pull testDeps ''alpine'' [WithPullUnpack, WithPullSnapshotter ''broken''] S0
     = Some (Inl (Errorf ''unpack failed''),
        S0\<lparr>world := emptyWorld\<lparr>stored := [alpineDesc],
                                   images := [''alpine'' \<mapsto> \<lparr>Name = ''alpine'', Target = alpineDesc\<rparr>]\<rparr>,
            calls := [CallResolve ''alpine'', CallFetcher ''alpine'', CallDispatch alpineDesc,
                      CallFetch 1 alpineDesc, CallChildren alpineDesc,
                      CallUpdate \<lparr>Name = ''alpine'', Target = alpineDesc\<rparr> [''target''],
                      CallCreate \<lparr>Name = ''alpine'', Target = alpineDesc\<rparr>,
                      CallUnpack \<lparr>Name = ''alpine'', Target = alpineDesc\<rparr> ''broken'']\<rparr>)
   \<and> Pull testDeps ''alpine'' [WithPullSnapshotter ''overlayfs''] S0
     = Some (Inr \<lparr>Name = ''alpine'', Target = alpineDesc\<rparr>,
        S0\<lparr>world := emptyWorld\<lparr>stored := [alpineDesc],
                                   images := [''alpine'' \<mapsto> \<lparr>Name = ''alpine'', Target = alpineDesc\<rparr>]\<rparr>,
            calls := [CallResolve ''alpine'', CallFetcher ''alpine'', CallDispatch alpineDesc,
                      CallFetch 1 alpineDesc, CallChildren alpineDesc,
                      CallUpdate \<lparr>Name = ''alpine'', Target = alpineDesc\<rparr> [''target''],
                      CallCreate \<lparr>Name = ''alpine'', Target = alpineDesc\<rparr>]\<rparr>)
   \<and> Pull (testDeps\<lparr>imageUnpack := (\<lambda>img sn w. (Some (Errorf ''never called''), w))\<rparr>)
        ''alpine'' [WithPullSnapshotter ''overlayfs''] S0
     = Some (Inr \<lparr>Name = ''alpine'', Target = alpineDesc\<rparr>,
        S0\<lparr>world := emptyWorld\<lparr>stored := [alpineDesc],
                                   images := [''alpine'' \<mapsto> \<lparr>Name = ''alpine'', Target = alpineDesc\<rparr>]\<rparr>,
            calls := [CallResolve ''alpine'', CallFetcher ''alpine'', CallDispatch alpineDesc,
                      CallFetch 1 alpineDesc, CallChildren alpineDesc,
                      CallUpdate \<lparr>Name = ''alpine'', Target = alpineDesc\<rparr> [''target''],
                      CallCreate \<lparr>Name = ''alpine'', Target = alpineDesc\<rparr>]\<rparr>)"
proof -
  let ?img = "\<lparr>Name = ''alpine'', Target = alpineDesc\<rparr>"
  let ?s1 = "S0\<lparr>calls := [CallResolve ''alpine'', CallFetcher ''alpine'']\<rparr>"
  let ?s2 = "S0\<lparr>world := emptyWorld\<lparr>stored := [alpineDesc]\<rparr>,
            calls := [CallResolve ''alpine'', CallFetcher ''alpine'', CallDispatch alpineDesc,
                      CallFetch 1 alpineDesc, CallChildren alpineDesc]\<rparr>"
  let ?s4 = "S0\<lparr>world := emptyWorld\<lparr>stored := [alpineDesc], images := [''alpine'' \<mapsto> ?img]\<rparr>,
            calls := [CallResolve ''alpine'', CallFetcher ''alpine'', CallDispatch alpineDesc,
                      CallFetch 1 alpineDesc, CallChildren alpineDesc,
                      CallUpdate ?img [''target''], CallCreate ?img]\<rparr>"
  have r: "Pull_resolve testDeps ''alpine'' [WithPullUnpack, WithPullSnapshotter sn] S0
     = (Inr ((defaultRemoteContext testDeps)\<lparr>Unpack := True, Snapshotter := sn\<rparr>,
             ''alpine'', alpineDesc, 1), ?s1)" for sn
    by (simp add: Pull_resolve_def WithPullUnpack_def WithPullSnapshotter_def model_defs test_defs)
  have r': "Pull_resolve testDeps ''alpine'' [WithPullSnapshotter ''overlayfs''] S0
     = (Inr ((defaultRemoteContext testDeps)\<lparr>Snapshotter := ''overlayfs''\<rparr>,
             ''alpine'', alpineDesc, 1), ?s1)"
    by (simp add: Pull_resolve_def WithPullSnapshotter_def model_defs test_defs)
  have d: "dispatch testDeps (Pull_handlers testDeps ((defaultRemoteContext testDeps)\<lparr>Unpack := u, Snapshotter := sn\<rparr>) 1 alpineDesc)
             alpineDesc (?s1\<lparr>calls := calls ?s1 @ [CallDispatch alpineDesc]\<rparr>) = Some (None, ?s2)" for u sn
    by (simp add: Pull_handlers_def model_defs test_defs eval_nat_numeral)
  have d': "dispatch testDeps (Pull_handlers testDeps ((defaultRemoteContext testDeps)\<lparr>Snapshotter := ''overlayfs''\<rparr>) 1 alpineDesc)
             alpineDesc (?s1\<lparr>calls := calls ?s1 @ [CallDispatch alpineDesc]\<rparr>) = Some (None, ?s2)"
    by (simp add: Pull_handlers_def model_defs test_defs eval_nat_numeral)
  have cv: "Pull_convert testDeps ((defaultRemoteContext testDeps)\<lparr>Unpack := u, Snapshotter := sn\<rparr>) 1 alpineDesc ?s2
        = (Inr alpineDesc, ?s2)" for u sn
    by (simp add: Pull_convert_def model_defs test_defs)
  have cv': "Pull_convert testDeps ((defaultRemoteContext testDeps)\<lparr>Snapshotter := ''overlayfs''\<rparr>) 1 alpineDesc ?s2
        = (Inr alpineDesc, ?s2)"
    by (simp add: Pull_convert_def model_defs test_defs)
  have up: "Pull_upsert testDeps ?img ?s2 = (Inr ?img, ?s4)"
    by (simp add: Pull_upsert_def model_defs test_defs)
  let ?never = "\<lambda>img sn w. (Some (Errorf ''never called''), w :: testWorld)"
  note T1 = Pull_unpack_when_asked[of testDeps "''alpine''"
               "[WithPullUnpack, WithPullSnapshotter ''overlayfs'']" S0]
  note T2 = Pull_unpack_when_asked[of testDeps "''alpine''"
               "[WithPullUnpack, WithPullSnapshotter ''broken'']" S0]
  note T3 = Pull_unpack_when_asked[of testDeps "''alpine''" "[WithPullSnapshotter ''overlayfs'']" S0]
  from T1 r[of "''overlayfs''"] d cv up
  have t1: "(Unpack ((defaultRemoteContext testDeps)\<lparr>Unpack := True, Snapshotter := ''overlayfs''\<rparr>) \<longrightarrow>
           (\<forall>e w. imageUnpack testDeps ?img (Snapshotter ((defaultRemoteContext testDeps)\<lparr>Unpack := True, Snapshotter := ''overlayfs''\<rparr>)) (world ?s4) = (Some e, w) \<longrightarrow>
              Pull testDeps ''alpine'' [WithPullUnpack, WithPullSnapshotter ''overlayfs''] S0 =
                Some (Inl e, ?s4\<lparr>calls := calls ?s4 @ [CallUnpack ?img (Snapshotter ((defaultRemoteContext testDeps)\<lparr>Unpack := True, Snapshotter := ''overlayfs''\<rparr>))], world := w\<rparr>))
         \<and> (\<forall>w. imageUnpack testDeps ?img (Snapshotter ((defaultRemoteContext testDeps)\<lparr>Unpack := True, Snapshotter := ''overlayfs''\<rparr>)) (world ?s4) = (None, w) \<longrightarrow>
              Pull testDeps ''alpine'' [WithPullUnpack, WithPullSnapshotter ''overlayfs''] S0 =
                Some (Inr ?img, ?s4\<lparr>calls := calls ?s4 @ [CallUnpack ?img (Snapshotter ((defaultRemoteContext testDeps)\<lparr>Unpack := True, Snapshotter := ''overlayfs''\<rparr>))], world := w\<rparr>)))"
    by blast
  from T2 r[of "''broken''"] d cv up
  have t2: "(Unpack ((defaultRemoteContext testDeps)\<lparr>Unpack := True, Snapshotter := ''broken''\<rparr>) \<longrightarrow>
           (\<forall>e w. imageUnpack testDeps ?img (Snapshotter ((defaultRemoteContext testDeps)\<lparr>Unpack := True, Snapshotter := ''broken''\<rparr>)) (world ?s4) = (Some e, w) \<longrightarrow>
              Pull testDeps ''alpine'' [WithPullUnpack, WithPullSnapshotter ''broken''] S0 =
                Some (Inl e, ?s4\<lparr>calls := calls ?s4 @ [CallUnpack ?img (Snapshotter ((defaultRemoteContext testDeps)\<lparr>Unpack := True, Snapshotter := ''broken''\<rparr>))], world := w\<rparr>))
         \<and> (\<forall>w. imageUnpack testDeps ?img (Snapshotter ((defaultRemoteContext testDeps)\<lparr>Unpack := True, Snapshotter := ''broken''\<rparr>)) (world ?s4) = (None, w) \<longrightarrow>
              Pull testDeps ''alpine'' [WithPullUnpack, WithPullSnapshotter ''broken''] S0 =
                Some (Inr ?img, ?s4\<lparr>calls := calls ?s4 @ [CallUnpack ?img (Snapshotter ((defaultRemoteContext testDeps)\<lparr>Unpack := True, Snapshotter := ''broken''\<rparr>))], world := w\<rparr>)))"
    by blast
  from T3 r' d' cv' up
  have t3: "\<not> Unpack ((defaultRemoteContext testDeps)\<lparr>Snapshotter := ''overlayfs''\<rparr>) \<longrightarrow>
      Pull testDeps ''alpine'' [WithPullSnapshotter ''overlayfs''] S0 = Some (Inr ?img, ?s4)"
    by blast
  have o: "applyOpts [WithPullSnapshotter ''overlayfs''] (defaultRemoteContext testDeps) (world S0)
       = (Inr ((defaultRemoteContext testDeps)\<lparr>Snapshotter := ''overlayfs''\<rparr>), emptyWorld)"
    by (simp add: WithPullSnapshotter_def test_defs)
  have nu: "\<not> Unpack ((defaultRemoteContext testDeps)\<lparr>Snapshotter := ''overlayfs''\<rparr>)"
    by (simp add: defaultRemoteContext_def)
  from T3 o nu
  have t4: "Pull (testDeps\<lparr>imageUnpack := ?never\<rparr>) ''alpine'' [WithPullSnapshotter ''overlayfs''] S0
      = Pull testDeps ''alpine'' [WithPullSnapshotter ''overlayfs''] S0"
    by blast
  have c1: "Pull testDeps ''alpine'' [WithPullUnpack, WithPullSnapshotter ''overlayfs''] S0
     = Some (Inr ?img, ?s4\<lparr>calls := calls ?s4 @ [CallUnpack ?img ''overlayfs''],
                          world := (world ?s4)\<lparr>unpacked := [(''alpine'', ''overlayfs'')]\<rparr>\<rparr>)"
    using t1 by (simp add: model_defs test_defs)
  have c2: "Pull testDeps ''alpine'' [WithPullUnpack, WithPullSnapshotter ''broken''] S0
     = Some (Inl (Errorf ''unpack failed''), ?s4\<lparr>calls := calls ?s4 @ [CallUnpack ?img ''broken'']\<rparr>)"
    using t2 by (simp add: model_defs test_defs)
  have c3: "Pull testDeps ''alpine'' [WithPullSnapshotter ''overlayfs''] S0 = Some (Inr ?img, ?s4)"
    using t3 by (simp add: model_defs test_defs)
  have c4: "Pull (testDeps\<lparr>imageUnpack := ?never\<rparr>) ''alpine'' [WithPullSnapshotter ''overlayfs''] S0
      = Some (Inr ?img, ?s4)"
    using t4 c3 by simp
  show ?thesis using r[of "''overlayfs''"] up c1 c2 c3 c4 by (simp add: test_defs)
qed

subsection \<open>C9\<close>

text \<open>
  Claim C9. An \<open>Import\<close> whose resolved options have a format other than
  \<open>oci\<close> returns the error \<open>unsupported format\<close> and calls nothing; an
  \<open>Export\<close> whose options set a format other than \<open>oci\<close> returns that error
  and no reader. When the options leave the format empty, \<open>Import\<close> and
  \<open>Export\<close> behave as with the OCI format option added at the end.
\<close>

theorem unsupported_format_rejected:
  "(\<forall>iopts. resolveImportOpt c ref opts = (iopts, None) \<and> format iopts \<noteq> ociImageFormat \<longrightarrow>
       Import c ref reader opts s = (Inl (Errorf (''unsupported format: '' @ format iopts)), s))
   \<and> (\<forall>eopts. applyExportOpts eos \<lparr>exportFormat = ''''\<rparr> = Inr eopts
          \<and> exportFormat eopts \<noteq> '''' \<and> exportFormat eopts \<noteq> ociImageFormat \<longrightarrow>
       Export desc eos = Inl (Errorf (''unsupported format: '' @ exportFormat eopts)))
   \<and> (\<forall>iopts. applyImportOpts opts \<lparr>format = '''', refObject = ''''\<rparr> = (iopts, None)
          \<and> format iopts = '''' \<longrightarrow>
       Import c ref reader opts s = Import c ref reader (opts @ [WithOCIImportFormat]) s)
   \<and> (\<forall>eopts. applyExportOpts eos \<lparr>exportFormat = ''''\<rparr> = Inr eopts \<and> exportFormat eopts = '''' \<longrightarrow>
       Export desc eos = Export desc (eos @ [WithOCIExportFormat])
       \<and> Export desc eos = Inr (ExportToOCITar desc (eopts\<lparr>exportFormat := ociImageFormat\<rparr>)))"
proof (intro conjI allI impI)
  fix iopts
  assume "resolveImportOpt c ref opts = (iopts, None) \<and> format iopts \<noteq> ociImageFormat"
  then show "Import c ref reader opts s = (Inl (Errorf (''unsupported format: '' @ format iopts)), s)"
    by (simp add: Import_def)
next
  fix eopts
  assume "applyExportOpts eos \<lparr>exportFormat = ''''\<rparr> = Inr eopts
          \<and> exportFormat eopts \<noteq> '''' \<and> exportFormat eopts \<noteq> ociImageFormat"
  then show "Export desc eos = Inl (Errorf (''unsupported format: '' @ exportFormat eopts))"
    by (simp add: Export_def)
next
  fix iopts
  assume a: "applyImportOpts opts \<lparr>format = '''', refObject = ''''\<rparr> = (iopts, None)
          \<and> format iopts = ''''"
  then have "applyImportOpts (opts @ [WithOCIImportFormat]) \<lparr>format = '''', refObject = ''''\<rparr>
       = (iopts\<lparr>format := ociImageFormat\<rparr>, None)"
    by (simp add: applyImportOpts_append WithOCIImportFormat_def)
  with a have "resolveImportOpt c ref (opts @ [WithOCIImportFormat]) = resolveImportOpt c ref opts"
    by (simp add: resolveImportOpt_def ociImageFormat_def)
  then show "Import c ref reader opts s = Import c ref reader (opts @ [WithOCIImportFormat]) s"
    by (simp add: Import_def)
next
  fix eopts
  assume a: "applyExportOpts eos \<lparr>exportFormat = ''''\<rparr> = Inr eopts \<and> exportFormat eopts = ''''"
  then have "applyExportOpts (eos @ [WithOCIExportFormat]) \<lparr>exportFormat = ''''\<rparr>
       = Inr (eopts\<lparr>exportFormat := ociImageFormat\<rparr>)"
    by (simp add: applyExportOpts_append WithOCIExportFormat_def)
  with a show "Export desc eos = Export desc (eos @ [WithOCIExportFormat])"
    by (simp add: Export_def ociImageFormat_def)
  from a show "Export desc eos = Inr (ExportToOCITar desc (eopts\<lparr>exportFormat := ociImageFormat\<rparr>))"
    by (simp add: Export_def)
qed

text \<open>The theorem at a run of the concrete instance.\<close>

theorem unsupported_format_rejected_witness:
  "resolveImportOpt testDeps ''img:v1'' [WithDockerImportFormat]
      = (\<lparr>format = ''docker'', refObject = ''img:v1''\<rparr>, None)
   \<and> Import testDeps ''img:v1'' ''tar'' [WithDockerImportFormat] S0
      = (Inl (Errorf ''unsupported format: docker''), S0)
   \<and> applyExportOpts [WithDockerExportFormat] \<lparr>exportFormat = ''''\<rparr> = Inr \<lparr>exportFormat = ''docker''\<rparr>
   \<and> Export alpineDesc [WithDockerExportFormat] = Inl (Errorf ''unsupported format: docker'')
   \<and> applyImportOpts [WithRefObject ''v1''] \<lparr>format = '''', refObject = ''''\<rparr>
      = (\<lparr>format = '''', refObject = ''v1''\<rparr>, None)
   \<and> Import testDeps ''img:v1'' ''tar'' [WithRefObject ''v1''] S0
      = Import testDeps ''img:v1'' ''tar'' ([WithRefObject ''v1''] @ [WithOCIImportFormat]) S0
   \<and> Import testDeps ''img:v1'' ''tar'' [WithRefObject ''v1''] S0
      = (Inr \<lparr>Name = ''img:v1'', Target = mkDesc MediaTypeImageManifest ''v1''\<rparr>,
         S0\<lparr>calls := [CallImportFromOCITar ''img:v1'' ''tar'' \<lparr>format = ''oci'', refObject = ''v1''\<rparr>]\<rparr>)
   \<and> applyExportOpts [] \<lparr>exportFormat = ''''\<rparr> = Inr \<lparr>exportFormat = ''''\<rparr>
   \<and> Export alpineDesc [] = Export alpineDesc ([] @ [WithOCIExportFormat])
   \<and> Export alpineDesc [] = Inr (ExportToOCITar alpineDesc \<lparr>exportFormat = ''oci''\<rparr>)"
proof -
  note t = unsupported_format_rejected[of testDeps "''img:v1''" "[WithDockerImportFormat]" "''tar''" S0
              "[WithDockerExportFormat]" alpineDesc]
  note u = unsupported_format_rejected[of testDeps "''img:v1''" "[WithRefObject ''v1'']" "''tar''" S0
              "[]" alpineDesc]
  have a1: "resolveImportOpt testDeps ''img:v1'' [WithDockerImportFormat]
      = (\<lparr>format = ''docker'', refObject = ''img:v1''\<rparr>, None)"
    by (simp add: resolveImportOpt_def WithDockerImportFormat_def testDeps_def)
  have a2: "applyExportOpts [WithDockerExportFormat] \<lparr>exportFormat = ''''\<rparr> = Inr \<lparr>exportFormat = ''docker''\<rparr>"
    by (simp add: WithDockerExportFormat_def)
  have a3: "applyImportOpts [WithRefObject ''v1''] \<lparr>format = '''', refObject = ''''\<rparr>
      = (\<lparr>format = '''', refObject = ''v1''\<rparr>, None)"
    by (simp add: WithRefObject_def)
  have a4: "applyExportOpts [] \<lparr>exportFormat = ''''\<rparr> = Inr \<lparr>exportFormat = ''''\<rparr>" by simp
  have c1: "Import testDeps ''img:v1'' ''tar'' [WithDockerImportFormat] S0
      = (Inl (Errorf ''unsupported format: docker''), S0)"
    using t a1 by (simp add: ociImageFormat_def)
  have c2: "Export alpineDesc [WithDockerExportFormat] = Inl (Errorf ''unsupported format: docker'')"
    using t a2 by (simp add: ociImageFormat_def)
  have c3: "Import testDeps ''img:v1'' ''tar'' [WithRefObject ''v1''] S0
      = Import testDeps ''img:v1'' ''tar'' ([WithRefObject ''v1''] @ [WithOCIImportFormat]) S0"
    using u a3 by simp
  have c4: "Export alpineDesc [] = Export alpineDesc ([] @ [WithOCIExportFormat])
       \<and> Export alpineDesc [] = Inr (ExportToOCITar alpineDesc \<lparr>exportFormat = ''oci''\<rparr>)"
  proof -
    have a5: "exportFormat \<lparr>exportFormat = ''''\<rparr> = ''''" by simp
    from u a4 a5 have u4: "Export alpineDesc [] = Export alpineDesc ([] @ [WithOCIExportFormat])
       \<and> Export alpineDesc [] =
           Inr (ExportToOCITar alpineDesc (\<lparr>exportFormat = ''''\<rparr>\<lparr>exportFormat := ociImageFormat\<rparr>))"
      by blast
    from conjunct2[OF u4] have "Export alpineDesc [] = Inr (ExportToOCITar alpineDesc \<lparr>exportFormat = ''oci''\<rparr>)"
      by (simp add: ociImageFormat_def)
    with conjunct1[OF u4] show ?thesis by blast
  qed
  have c5: "Import testDeps ''img:v1'' ''tar'' [WithRefObject ''v1''] S0
      = (Inr \<lparr>Name = ''img:v1'', Target = mkDesc MediaTypeImageManifest ''v1''\<rparr>,
         S0\<lparr>calls := [CallImportFromOCITar ''img:v1'' ''tar'' \<lparr>format = ''oci'', refObject = ''v1''\<rparr>]\<rparr>)"
    by (simp add: Import_def resolveImportOpt_def WithRefObject_def ociImageFormat_def model_defs test_defs)
  show ?thesis using a1 a2 a3 a4 c1 c2 c3 c4 c5 by blast
qed

subsection \<open>C10\<close>

text \<open>
  Claim C10. If an option returns an error after the options before it returned none,
  \<open>Pull\<close> and \<open>Push\<close> return that error, in the state that this option
  left: the later options are not run and no call is recorded (no resolution, no dispatch,
  no content-store or image-registry operation).
\<close>

theorem failing_option_ends_call:
  assumes "applyOpts os1 (defaultRemoteContext c) (world s) = (Inr ctx1, w1)"
    and "opt ctx1 w1 = ((Some e, ctx2), w2)"
  shows "Pull c ref (os1 @ opt # os2) s = Some (Inl e, s\<lparr>world := w2\<rparr>)
       \<and> Push c ref desc (os1 @ opt # os2) s = Some (Some e, s\<lparr>world := w2\<rparr>)
       \<and> calls (s\<lparr>world := w2\<rparr>) = calls s"
proof -
  have "applyOpts (os1 @ opt # os2) (defaultRemoteContext c) (world s) = (Inl e, w2)"
    using assms by (rule applyOpts_append_fail)
  then show ?thesis
    by (simp add: Pull_def Pull_resolve_def Push_def Push_pusher_def run_def)
qed

text \<open>The theorem at a run of the concrete instance.\<close>

theorem failing_option_ends_call_witness:
  "applyOpts [WithPullUnpack] (defaultRemoteContext testDeps) (world S0)
      = (Inr ((defaultRemoteContext testDeps)\<lparr>Unpack := True\<rparr>), emptyWorld)
   \<and> failingOpt ((defaultRemoteContext testDeps)\<lparr>Unpack := True\<rparr>) emptyWorld
      = ((Some (Errorf ''bad option''), (defaultRemoteContext testDeps)\<lparr>Unpack := True\<rparr>), emptyWorld)
   \<and> Pull testDeps ''alpine'' ([WithPullUnpack] @ failingOpt # [WithSchema1Conversion]) S0
      = Some (Inl (Errorf ''bad option''), S0)
   \<and> Push testDeps ''alpine'' alpineDesc ([WithPullUnpack] @ failingOpt # [WithSchema1Conversion]) S0
      = Some (Some (Errorf ''bad option''), S0)
   \<and> calls S0 = []"
proof -
  have h1: "applyOpts [WithPullUnpack] (defaultRemoteContext testDeps) (world S0)
      = (Inr ((defaultRemoteContext testDeps)\<lparr>Unpack := True\<rparr>), emptyWorld)"
    by (simp add: WithPullUnpack_def test_defs)
  have h2: "failingOpt ((defaultRemoteContext testDeps)\<lparr>Unpack := True\<rparr>) emptyWorld
      = ((Some (Errorf ''bad option''), (defaultRemoteContext testDeps)\<lparr>Unpack := True\<rparr>), emptyWorld)"
    by (simp add: failingOpt_def)
  have w: "S0\<lparr>world := emptyWorld\<rparr> = S0" "calls S0 = []" by (simp_all add: test_defs)
  show ?thesis
    using failing_option_ends_call[where opt=failingOpt and ?os1.0="[WithPullUnpack]" and c=testDeps
        and s=S0 and ref="''alpine''" and ?os2.0="[WithSchema1Conversion]" and desc=alpineDesc, OF h1 h2] h1 h2 w
    by simp
qed

end
